theory Spec2Isabelle
  imports Complex_Main "HOL-Library.Sublist"
begin

section \<open>Labor matching and cost extension of the electrician tool\<close>

text \<open>
  A shallow embedding of \<^verbatim>\<open>labor_matcher.py\<close> and of the two numeric
  utilities of \<^verbatim>\<open>cost_calculator.py\<close>.

  Conventions of the model:
  \<^item> a Python \<^verbatim>\<open>str\<close> is a \<^typ>\<open>string\<close>; the character classes of
    \<^verbatim>\<open>str.strip\<close>, \<^verbatim>\<open>str.split\<close>, \<^verbatim>\<open>str.lower\<close> and of the
    regular expressions (\<^verbatim>\<open>\s\<close>, \<^verbatim>\<open>\d\<close>, \<^verbatim>\<open>\b\<close>) are the ASCII ones:
    a character outside ASCII is taken to be caseless and to be neither white space,
    a digit nor a word character;
  \<^item> a Python \<^verbatim>\<open>float\<close> is the exact \<^typ>\<open>real\<close> it stands for: the rounding
    of double precision is not modelled. Every score of the matcher is an integer plus
    three tenths of an integer, so thresholds and comparisons of scores are decided
    on exact tenths;
  \<^item> an exception is a value: fallible functions return \<open>py_error + 'a\<close>;
  \<^item> \<^verbatim>\<open>fuzz.token_set_ratio\<close> belongs to the third-party package
    \<^verbatim>\<open>thefuzz\<close>; it is a parameter \<open>fz\<close> of the matcher, an integer-valued
    function of two strings.
\<close>

subsection \<open>Exceptions\<close>

text \<open>The exceptions the modelled code can raise.\<close>

datatype py_error = ValueError | OSError | CsvError

subsection \<open>Python strings\<close>

definition is_space :: "char \<Rightarrow> bool" where
  "is_space c = (c \<in> set [CHR 0x09, CHR 0x0A, CHR 0x0B, CHR 0x0C, CHR 0x0D,
                            CHR 0x1C, CHR 0x1D, CHR 0x1E, CHR 0x1F, CHR 0x20])"

definition is_digit :: "char \<Rightarrow> bool" where
  "is_digit c = (c \<in> set ''0123456789'')"

definition upper_letters :: string where
  "upper_letters = ''ABCDEFGHIJKLMNOPQRSTUVWXYZ''"

definition lower_letters :: string where
  "lower_letters = ''abcdefghijklmnopqrstuvwxyz''"

definition is_upper :: "char \<Rightarrow> bool" where
  "is_upper c = (c \<in> set upper_letters)"

definition is_lower :: "char \<Rightarrow> bool" where
  "is_lower c = (c \<in> set lower_letters)"

text \<open>The class \<^verbatim>\<open>\w\<close> of the regular expressions.\<close>

definition is_word :: "char \<Rightarrow> bool" where
  "is_word c = (is_digit c \<or> is_upper c \<or> is_lower c \<or> c = CHR ''_'')"

definition lower_char :: "char \<Rightarrow> char" where
  "lower_char c =
     (case map_of (zip upper_letters lower_letters) c of
        Some d \<Rightarrow> d
      | None \<Rightarrow> c)"

text \<open>\<^verbatim>\<open>s.lower()\<close>\<close>

definition py_lower :: "string \<Rightarrow> string" where
  "py_lower s = map lower_char s"

text \<open>\<^verbatim>\<open>s.strip()\<close>\<close>

definition py_strip :: "string \<Rightarrow> string" where
  "py_strip s = rev (dropWhile is_space (rev (dropWhile is_space s)))"

text \<open>\<^verbatim>\<open>s.split()\<close>: the maximal runs of characters that are not white space.\<close>

fun split_acc :: "string \<Rightarrow> string \<Rightarrow> string list" where
  "split_acc w [] = (if w = [] then [] else [w])"
| "split_acc w (c # cs) =
     (if is_space c then (if w = [] then split_acc [] cs else w # split_acc [] cs)
      else split_acc (w @ [c]) cs)"

definition py_split :: "string \<Rightarrow> string list" where
  "py_split s = split_acc [] s"

text \<open>\<^verbatim>\<open>sub in s\<close>\<close>

fun py_in :: "string \<Rightarrow> string \<Rightarrow> bool" where
  "py_in sub [] = (sub = [])"
| "py_in sub (c # cs) = (prefix sub (c # cs) \<or> py_in sub cs)"

text \<open>
  \<^verbatim>\<open>s.replace(old, new)\<close>: the occurrences of \<open>old\<close> are replaced from the left,
  without overlap. The counter is the number of characters of the current occurrence
  still to be skipped.
\<close>

fun replace_from :: "nat \<Rightarrow> string \<Rightarrow> string \<Rightarrow> string \<Rightarrow> string" where
  "replace_from k old new [] = []"
| "replace_from (Suc k) old new (c # cs) = replace_from k old new cs"
| "replace_from 0 old new (c # cs) =
     (if prefix old (c # cs) then new @ replace_from (length old - 1) old new cs
      else c # replace_from 0 old new cs)"

definition py_replace :: "string \<Rightarrow> string \<Rightarrow> string \<Rightarrow> string" where
  "py_replace old new s =
     (if old = [] then new @ concat (map (\<lambda>c. c # new) s) else replace_from 0 old new s)"

text \<open>\<^verbatim>\<open>sep.join(xs)\<close>\<close>

fun py_join :: "string \<Rightarrow> string list \<Rightarrow> string" where
  "py_join sep [] = []"
| "py_join sep [x] = x"
| "py_join sep (x # y # ys) = x @ sep @ py_join sep (y # ys)"

subsection \<open>Normalizer (\<^verbatim>\<open>labor_matcher.py\<close>)\<close>

text \<open>
  \<^verbatim>\<open>re.sub(r'\s+', ' ', s)\<close>: every maximal run of white space becomes one blank.
  The flag says that the previous character was white space.
\<close>

fun sub_ws :: "bool \<Rightarrow> string \<Rightarrow> string" where
  "sub_ws b [] = []"
| "sub_ws b (c # cs) =
     (if is_space c then (if b then sub_ws True cs else CHR '' '' # sub_ws True cs)
      else c # sub_ws False cs)"

text \<open>
  \<^verbatim>\<open>\b\<close> holds between two neighbours (\<open>None\<close> is an end of the string) when
  exactly one of them is a word character.
\<close>

definition word_char_opt :: "char option \<Rightarrow> bool" where
  "word_char_opt p = (case p of None \<Rightarrow> False | Some c \<Rightarrow> is_word c)"

definition at_boundary :: "char option \<Rightarrow> char option \<Rightarrow> bool" where
  "at_boundary p n = (word_char_opt p \<noteq> word_char_opt n)"

definition head_opt :: "string \<Rightarrow> char option" where
  "head_opt s = (case s of [] \<Rightarrow> None | c # _ \<Rightarrow> Some c)"

text \<open>
  The pattern \<^verbatim>\<open>r'\b' + re.escape(alias) + r'\b'\<close> matches at the front of \<open>s\<close>,
  the character before \<open>s\<close> being \<open>prev\<close>.
\<close>

definition bounded_match :: "string \<Rightarrow> char option \<Rightarrow> string \<Rightarrow> bool" where
  "bounded_match alias prev s =
     (alias \<noteq> [] \<and> prefix alias s \<and> at_boundary prev (head_opt s)
      \<and> at_boundary (Some (last alias)) (head_opt (drop (length alias) s)))"

text \<open>
  \<^verbatim>\<open>re.sub(r'\b' + re.escape(alias) + r'\b', repl, s)\<close>: the matches are found from the
  left, without overlap, on the original string. The counter is the number of
  characters of the current match still to be skipped.
\<close>

fun sub_bounded :: "nat \<Rightarrow> char option \<Rightarrow> string \<Rightarrow> string \<Rightarrow> string \<Rightarrow> string" where
  "sub_bounded k prev alias repl [] = []"
| "sub_bounded (Suc k) prev alias repl (c # cs) = sub_bounded k (Some c) alias repl cs"
| "sub_bounded 0 prev alias repl (c # cs) =
     (if bounded_match alias prev (c # cs)
      then repl @ sub_bounded (length alias - 1) (Some c) alias repl cs
      else c # sub_bounded 0 (Some c) alias repl cs)"

text \<open>The dictionary \<^verbatim>\<open>SIZE_ALIASES\<close>, in its order of iteration.\<close>

definition SIZE_ALIASES :: "(string \<times> string) list" where
  "SIZE_ALIASES =
     [(''.5'', ''1/2''), (''0.5'', ''1/2''), (''.75'', ''3/4''), (''0.75'', ''3/4''),
      (''1.25'', ''1 1/4''), (''1.5'', ''1 1/2''), (''2.5'', ''2 1/2''), (''3.5'', ''3 1/2'')]"

text \<open>
  \<^verbatim>\<open>
  def normalize_description(desc):
      desc = desc.lower().strip()
      desc = desc.replace('"', ' inch ').replace("'", ' ')
      desc = re.sub(r'\s+', ' ', desc).strip()
      for alias, normalized in SIZE_ALIASES.items():
          desc = re.sub(r'\b' + re.escape(alias) + r'\b', normalized, desc)
      return desc
  \<close>
\<close>

definition normalize_description :: "string \<Rightarrow> string" where
  "normalize_description desc =
     (let d1 = py_strip (py_lower desc);
          d2 = py_replace [CHR 0x27] '' '' (py_replace [CHR 0x22] '' inch '' d1);
          d3 = py_strip (sub_ws False d2)
      in foldl (\<lambda>d (alias, normalized). sub_bounded 0 None alias normalized d) d3 SIZE_ALIASES)"

subsection \<open>Feature extractor\<close>

text \<open>
  The size patterns. Each function matches its pattern at the front of the string and
  returns the matched text and the rest. Every \<^verbatim>\<open>\d+\<close> and \<^verbatim>\<open>\s+\<close> of these
  patterns is followed by a character of another class (or by nothing), so the greedy
  match takes the whole run and backtracking into a shorter run cannot succeed.
\<close>

text \<open>\<^verbatim>\<open>\d+\<close>\<close>

definition match_int :: "string \<Rightarrow> (string \<times> string) option" where
  "match_int s =
     (if takeWhile is_digit s = [] then None
      else Some (takeWhile is_digit s, dropWhile is_digit s))"

text \<open>\<^verbatim>\<open>\d+/\d+\<close>\<close>

definition match_fraction :: "string \<Rightarrow> (string \<times> string) option" where
  "match_fraction s =
     (case match_int s of
        None \<Rightarrow> None
      | Some (d1, r1) \<Rightarrow>
          (case r1 of
             [] \<Rightarrow> None
           | c # r2 \<Rightarrow>
               if c = CHR ''/'' then
                 (case match_int r2 of
                    None \<Rightarrow> None
                  | Some (d2, r3) \<Rightarrow> Some (d1 @ ''/'' @ d2, r3))
               else None))"

text \<open>\<^verbatim>\<open>\d+\s+\d+/\d+\<close>\<close>

definition match_mixed :: "string \<Rightarrow> (string \<times> string) option" where
  "match_mixed s =
     (case match_int s of
        None \<Rightarrow> None
      | Some (d1, r1) \<Rightarrow>
          if takeWhile is_space r1 = [] then None
          else (case match_fraction (dropWhile is_space r1) of
                  None \<Rightarrow> None
                | Some (f, r2) \<Rightarrow> Some (d1 @ takeWhile is_space r1 @ f, r2)))"

text \<open>
  \<^verbatim>\<open>
  def extract_size(desc):
      size_match = re.search(r'(\d+\s+\d+/\d+|\d+/\d+|\d+)', desc)
      if size_match:
          return size_match.group(1).strip()
      return ""
  \<close>
  Every alternative starts with a digit and the last one matches at any digit, so the
  leftmost match starts at the first digit; there the alternatives are tried in order.
\<close>

definition extract_size :: "string \<Rightarrow> string" where
  "extract_size desc =
     (let t = dropWhile (\<lambda>c. \<not> is_digit c) desc in
      case match_mixed t of
        Some (m, _) \<Rightarrow> py_strip m
      | None \<Rightarrow>
          (case match_fraction t of
             Some (m, _) \<Rightarrow> py_strip m
           | None \<Rightarrow>
               (case match_int t of
                  Some (m, _) \<Rightarrow> py_strip m
                | None \<Rightarrow> [])))"

text \<open>The rest of an anchored match, \<^verbatim>\<open>\s*$\<close>: only white space may follow.\<close>

definition to_end :: "(string \<times> string) option \<Rightarrow> string option" where
  "to_end r =
     (case r of
        None \<Rightarrow> None
      | Some (m, rest) \<Rightarrow> if dropWhile is_space rest = [] then Some m else None)"

text \<open>
  \<^verbatim>\<open>
  def extract_size_from_item(item):
      item = item.replace('"', '').replace("''", '').strip()
      size_match = re.match(r'^(\d+\s+\d+/\d+|\d+/\d+)\s*$', item)
      if size_match:
          return size_match.group(1)
      return ""
  \<close>
\<close>

definition extract_size_from_item :: "string \<Rightarrow> string" where
  "extract_size_from_item item =
     (let i = py_strip (py_replace [CHR 0x27, CHR 0x27] [] (py_replace [CHR 0x22] [] item)) in
      case to_end (match_mixed i) of
        Some m \<Rightarrow> m
      | None \<Rightarrow> (case to_end (match_fraction i) of Some m \<Rightarrow> m | None \<Rightarrow> []))"

definition stop_words :: "string list" where
  "stop_words =
     [''with'', ''and'', ''for'', ''the'', ''a'', ''an'', ''or'', ''in'', ''on'',
      ''to'', ''of'', ''inch'', ''feet'', ''ft'', ''ea'', ''each'', ''per'']"

text \<open>
  \<^verbatim>\<open>
  def _extract_keywords(self, desc) -> list:
      words = desc.split()
      return [w for w in words if w not in stop_words and len(w) > 1]
  \<close>
\<close>

definition extract_keywords :: "string \<Rightarrow> string list" where
  "extract_keywords desc =
     filter (\<lambda>w. w \<notin> set stop_words \<and> length w > 1) (py_split desc)"

subsection \<open>Scorer and matcher\<close>

text \<open>A row of the reference table, as \<^verbatim>\<open>csv.DictReader\<close> decodes it.\<close>

record entry =
  Section :: string
  Category :: string
  Item :: string
  Easy :: string
  Average :: string
  Difficult :: string
  Remodel :: string
  Old_Work :: string
  Unit :: string

text \<open>The dictionary \<^verbatim>\<open>TYPE_ALIASES\<close>, in its order of iteration.\<close>

definition TYPE_ALIASES :: "(string \<times> string list) list" where
  "TYPE_ALIASES =
     [(''emt'', [''EMT CONDUIT'', ''EMT'']),
      (''rigid'', [''RIGID STEEL CONDUIT'', ''RIGID CONDUIT'']),
      (''pvc'', [''PVC CONDUIT'']),
      (''mc'', [''MC CABLE'']),
      (''romex'', [''NON-METALLIC SHEATHED CABLE'', ''NM CABLE'']),
      (''thhn'', [''WIRE'']),
      (''awg'', [''WIRE'']),
      (''coupling'', [''COUPLINGS'', ''COUPLING'']),
      (''connector'', [''CONNECTORS'', ''CONNECTOR'']),
      (''box'', [''SQUARE BOXES'', ''OCTAGON BOXES'', ''SWITCH BOXES'', ''PLASTIC BOXES'']),
      (''breaker'', [''PLUG-IN CIRCUIT BREAKERS'', ''BOLT-ON BREAKERS'']),
      (''strut'', [''SUPPORT CHANNEL (STRUT)'', ''SUPPORT CHANNEL'']),
      (''beam clamp'', [''BEAM CLAMP'']),
      (''wire nut'', [''WIRENUTS'']),
      (''fan'', [''FANS'']),
      (''switch'', [''SWITCHES'']),
      (''receptacle'', [''RECEPTACLES''])]"

definition conduit_types :: "string list" where
  "conduit_types = [''emt'', ''rigid'', ''pvc'', ''imc'', ''ent'', ''mc'']"

text \<open>The running pair \<^verbatim>\<open>(score, reasons)\<close> of the loop body of \<^verbatim>\<open>search\<close>.\<close>

type_synonym tally = "int \<times> string list"

text \<open>
  \<^verbatim>\<open>
  for alias, targets in TYPE_ALIASES.items():
      if alias in query_norm:
          for target in targets:
              if target.lower() in combined:
                  score += 40
                  reasons.append(f"type_match:{alias}")
                  break
  \<close>
\<close>

definition alias_step :: "string \<Rightarrow> string \<Rightarrow> tally \<Rightarrow> string \<times> string list \<Rightarrow> tally" where
  "alias_step query_norm combined t a =
     (if py_in (fst a) query_norm \<and> list_ex (\<lambda>target. py_in (py_lower target) combined) (snd a)
      then (fst t + 40, snd t @ [''type_match:'' @ fst a])
      else t)"

definition alias_bonus :: "string \<Rightarrow> string \<Rightarrow> tally \<Rightarrow> tally" where
  "alias_bonus query_norm combined t = foldl (alias_step query_norm combined) t TYPE_ALIASES"

text \<open>
  \<^verbatim>\<open>
  query_conduit = None
  for ct in conduit_types:
      if ct in query_norm.split():
          query_conduit = ct
          break
  \<close>
\<close>

definition query_conduit :: "string \<Rightarrow> string option" where
  "query_conduit query_norm = find (\<lambda>ct. ct \<in> set (py_split query_norm)) conduit_types"

text \<open>
  \<^verbatim>\<open>
  if query_conduit:
      for ct in conduit_types:
          if ct != query_conduit and ct in section_lower.split():
              score -= 25
              reasons.append(f"wrong_type_penalty:{ct}")
  \<close>
\<close>

definition penalty_step :: "string \<Rightarrow> string \<Rightarrow> tally \<Rightarrow> string \<Rightarrow> tally" where
  "penalty_step qc section_lower t ct =
     (if ct \<noteq> qc \<and> ct \<in> set (py_split section_lower)
      then (fst t - 25, snd t @ [''wrong_type_penalty:'' @ ct])
      else t)"

definition conduit_penalty :: "string \<Rightarrow> string \<Rightarrow> tally \<Rightarrow> tally" where
  "conduit_penalty query_norm section_lower t =
     (case query_conduit query_norm of
        None \<Rightarrow> t
      | Some qc \<Rightarrow> foldl (penalty_step qc section_lower) t conduit_types)"

text \<open>
  \<^verbatim>\<open>
  if query_size:
      entry_size = extract_size_from_item(entry['Item'])
      if not entry_size:
          entry_size = extract_size(item_lower)
      if entry_size == query_size:
          score += 30
          reasons.append(f"size_match:{query_size}")
  \<close>
\<close>

definition entry_size :: "entry \<Rightarrow> string \<Rightarrow> string" where
  "entry_size e item_lower =
     (if extract_size_from_item (Item e) = [] then extract_size item_lower
      else extract_size_from_item (Item e))"

definition size_bonus :: "string \<Rightarrow> entry \<Rightarrow> string \<Rightarrow> tally \<Rightarrow> tally" where
  "size_bonus query_size e item_lower t =
     (if query_size \<noteq> [] \<and> entry_size e item_lower = query_size
      then (fst t + 30, snd t @ [''size_match:'' @ query_size])
      else t)"

text \<open>
  \<^verbatim>\<open>
  for kw in keywords:
      if kw in combined:
          score += 15
          reasons.append(f"keyword:{kw}")
  \<close>
\<close>

definition keyword_step :: "string \<Rightarrow> tally \<Rightarrow> string \<Rightarrow> tally" where
  "keyword_step combined t kw =
     (if py_in kw combined then (fst t + 15, snd t @ [''keyword:'' @ kw]) else t)"

definition keyword_bonus :: "string list \<Rightarrow> string \<Rightarrow> tally \<Rightarrow> tally" where
  "keyword_bonus keywords combined t = foldl (keyword_step combined) t keywords"

text \<open>\<^verbatim>\<open>str(n)\<close> for an integer, as the f-string \<^verbatim>\<open>f"fuzzy:{fuzzy_score}"\<close> prints it.\<close>

fun str_nat :: "nat \<Rightarrow> string" where
  "str_nat n =
     (if n < 10 then [''0123456789'' ! n]
      else str_nat (n div 10) @ [''0123456789'' ! (n mod 10)])"

definition str_int :: "int \<Rightarrow> string" where
  "str_int i = (if i < 0 then CHR ''-'' # str_nat (nat (- i)) else str_nat (nat i))"

text \<open>
  \<^verbatim>\<open>round(x, 1)\<close>: the nearest multiple of one tenth, a tie going to the even one.
\<close>

definition py_round1 :: "real \<Rightarrow> real" where
  "py_round1 x =
     (let y = x * 10; f = \<lfloor>y\<rfloor>; d = y - of_int f in
      (if d < 1 / 2 then of_int f
       else if 1 / 2 < d then of_int (f + 1)
       else if even f then of_int f
       else of_int (f + 1)) / 10)"

text \<open>\<^verbatim>\<open>xs[:n]\<close>: a negative \<open>n\<close> counts from the end of the list.\<close>

definition py_slice_to :: "int \<Rightarrow> 'a list \<Rightarrow> 'a list" where
  "py_slice_to n xs = (if 0 \<le> n then take (nat n) xs else take (nat (int (length xs) + n)) xs)"

text \<open>
  \<^verbatim>\<open>
  section_lower = entry['Section'].lower()
  category_lower = entry['Category'].lower()
  item_lower = entry['Item'].lower().replace('"', '')
  combined = f"{section_lower} {category_lower} {item_lower}"
  \<close>
\<close>

definition item_lower :: "entry \<Rightarrow> string" where
  "item_lower e = py_replace [CHR 0x22] [] (py_lower (Item e))"

definition combined_text :: "entry \<Rightarrow> string" where
  "combined_text e = py_lower (Section e) @ '' '' @ py_lower (Category e) @ '' '' @ item_lower e"

text \<open>The integer part of the score: everything before the similarity is added.\<close>

definition signals :: "string \<Rightarrow> string \<Rightarrow> string list \<Rightarrow> entry \<Rightarrow> tally" where
  "signals query_norm query_size keywords e =
     keyword_bonus keywords (combined_text e)
       (size_bonus query_size e (item_lower e)
         (conduit_penalty query_norm (py_lower (Section e))
           (alias_bonus query_norm (combined_text e) (0, []))))"

text \<open>
  \<^verbatim>\<open>
  fuzzy_score = fuzz.token_set_ratio(query_norm, combined)
  score += fuzzy_score * 0.3
  if fuzzy_score > 60:
      reasons.append(f"fuzzy:{fuzzy_score}")
  \<close>
  The body of the loop up to here gives the raw score and the reasons of one entry.
\<close>

definition score_entry ::
  "(string \<Rightarrow> string \<Rightarrow> int) \<Rightarrow> string \<Rightarrow> string \<Rightarrow> string list \<Rightarrow> entry \<Rightarrow> real \<times> string list" where
  "score_entry fz query_norm query_size keywords e =
     (let t = signals query_norm query_size keywords e;
          fuzzy_score = fz query_norm (combined_text e)
      in (of_int (fst t) + of_int fuzzy_score * (3 / 10),
          if 60 < fuzzy_score then snd t @ [''fuzzy:'' @ str_int fuzzy_score] else snd t))"

type_synonym match_result = "entry \<times> real \<times> string"

text \<open>
  \<^verbatim>\<open>
  if score > 20:
      results.append((entry, round(score, 1), ', '.join(reasons)))
  \<close>
\<close>

definition qualify ::
  "(string \<Rightarrow> string \<Rightarrow> int) \<Rightarrow> string \<Rightarrow> string \<Rightarrow> string list \<Rightarrow> entry \<Rightarrow> match_result list" where
  "qualify fz query_norm query_size keywords e =
     (let sr = score_entry fz query_norm query_size keywords e in
      if 20 < fst sr then [(e, py_round1 (fst sr), py_join '', '' (snd sr))] else [])"

text \<open>The list \<^verbatim>\<open>results\<close> when the loop over the entries ends, before it is sorted.\<close>

definition candidates :: "(string \<Rightarrow> string \<Rightarrow> int) \<Rightarrow> entry list \<Rightarrow> string \<Rightarrow> match_result list" where
  "candidates fz es query =
     (let query_norm = normalize_description query;
          query_size = extract_size query_norm;
          keywords = extract_keywords query_norm
      in concat (map (qualify fz query_norm query_size keywords) es))"

record matcher =
  entries :: "entry list"

text \<open>
  \<^verbatim>\<open>
  results.sort(key=lambda x: x[1], reverse=True)
  return results[:top_n]
  \<close>
  Python's sort is stable, also with \<^verbatim>\<open>reverse=True\<close>: it is the stable sort on the
  negated key.
\<close>

definition search :: "(string \<Rightarrow> string \<Rightarrow> int) \<Rightarrow> matcher \<Rightarrow> string \<Rightarrow> int \<Rightarrow> match_result list" where
  "search fz m query top_n =
     py_slice_to top_n (sort_key (\<lambda>r. - fst (snd r)) (candidates fz (entries m) query))"

text \<open>
  \<^verbatim>\<open>
  def best_match(self, query):
      results = self.search(query, top_n=1)
      if not results:
          return None, 0, "No match found"
      entry, raw_score, reason = results[0]
      confidence = min(100, raw_score)
      return entry, confidence, reason
  \<close>
\<close>

definition best_match :: "(string \<Rightarrow> string \<Rightarrow> int) \<Rightarrow> matcher \<Rightarrow> string \<Rightarrow> entry option \<times> real \<times> string" where
  "best_match fz m query =
     (case search fz m query 1 of
        [] \<Rightarrow> (None, 0, ''No match found'')
      | r # _ \<Rightarrow> (Some (fst r), min 100 (fst (snd r)), snd (snd r)))"

text \<open>
  The raw score and the reason text of one entry for a query, as the loop of
  \<^verbatim>\<open>search\<close> computes them, and the test \<^verbatim>\<open>score > 20\<close>.
\<close>

definition raw_score :: "(string \<Rightarrow> string \<Rightarrow> int) \<Rightarrow> string \<Rightarrow> entry \<Rightarrow> real" where
  "raw_score fz query e =
     fst (score_entry fz (normalize_description query)
            (extract_size (normalize_description query))
            (extract_keywords (normalize_description query)) e)"

definition reason_text :: "(string \<Rightarrow> string \<Rightarrow> int) \<Rightarrow> string \<Rightarrow> entry \<Rightarrow> string" where
  "reason_text fz query e =
     py_join '', '' (snd (score_entry fz (normalize_description query)
            (extract_size (normalize_description query))
            (extract_keywords (normalize_description query)) e))"

definition qualifies :: "(string \<Rightarrow> string \<Rightarrow> int) \<Rightarrow> string \<Rightarrow> entry \<Rightarrow> bool" where
  "qualifies fz query e = (20 < raw_score fz query e)"

text \<open>
  The files of the reference table: what \<^verbatim>\<open>open(db_path, encoding='utf-8')\<close> followed
  by \<^verbatim>\<open>list(csv.DictReader(f))\<close> gives for a path, the exception raised or the rows.
\<close>

type_synonym table_files = "string \<Rightarrow> py_error + entry list"

text \<open>
  \<^verbatim>\<open>
  def __init__(self, db_path="data/labor_units_db.csv"):
      self.entries = []
      self.load_db(db_path)

  def load_db(self, db_path):
      with open(db_path, encoding='utf-8') as f:
          self.entries = list(csv.DictReader(f))
  \<close>
\<close>

definition load_db :: "table_files \<Rightarrow> matcher \<Rightarrow> string \<Rightarrow> py_error + matcher" where
  "load_db files m db_path =
     (case files db_path of
        Inl err \<Rightarrow> Inl err
      | Inr rows \<Rightarrow> Inr (m\<lparr>entries := rows\<rparr>))"

definition LaborMatcher_init :: "table_files \<Rightarrow> string \<Rightarrow> py_error + matcher" where
  "LaborMatcher_init files db_path = load_db files \<lparr>entries = []\<rparr> db_path"

subsection \<open>Extension calculator (\<^verbatim>\<open>cost_calculator.py\<close>)\<close>

text \<open>
  \<^verbatim>\<open>
  def calculate_labor_extension(qty, qty_unit, labor_value, labor_unit):
      if labor_unit == 'E':   return qty * labor_value
      elif labor_unit == 'C': return (qty / 100) * labor_value
      elif labor_unit == 'M': return (qty / 1000) * labor_value
      return qty * labor_value
  \<close>
\<close>

definition calculate_labor_extension :: "real \<Rightarrow> string \<Rightarrow> real \<Rightarrow> string \<Rightarrow> real" where
  "calculate_labor_extension qty qty_unit labor_value labor_unit =
     (if labor_unit = ''E'' then qty * labor_value
      else if labor_unit = ''C'' then (qty / 100) * labor_value
      else if labor_unit = ''M'' then (qty / 1000) * labor_value
      else qty * labor_value)"

text \<open>
  The top score of a query: the greatest reported score among the entries that qualify.
\<close>

definition top_score :: "(string \<Rightarrow> string \<Rightarrow> int) \<Rightarrow> entry list \<Rightarrow> string \<Rightarrow> real" where
  "top_score fz es q =
     Max (set (map (\<lambda>e. py_round1 (raw_score fz q e)) (filter (qualifies fz q) es)))"

text \<open>
  The integer part of the raw score of an entry for a query, the same sum with the
  keyword bonus left out, and the same sum with the conduit-type penalty left out.
\<close>

definition signal_score :: "string \<Rightarrow> entry \<Rightarrow> int" where
  "signal_score query e =
     fst (signals (normalize_description query)
            (extract_size (normalize_description query))
            (extract_keywords (normalize_description query)) e)"

definition unkeyworded_score :: "string \<Rightarrow> entry \<Rightarrow> int" where
  "unkeyworded_score query e =
     fst (size_bonus (extract_size (normalize_description query)) e (item_lower e)
           (conduit_penalty (normalize_description query) (py_lower (Section e))
             (alias_bonus (normalize_description query) (combined_text e) (0, []))))"

definition unpenalised_score :: "string \<Rightarrow> entry \<Rightarrow> int" where
  "unpenalised_score query e =
     fst (keyword_bonus (extract_keywords (normalize_description query)) (combined_text e)
           (size_bonus (extract_size (normalize_description query)) e (item_lower e)
             (alias_bonus (normalize_description query) (combined_text e) (0, []))))"

subsection \<open>Quantity parser (\<^verbatim>\<open>cost_calculator.py\<close>)\<close>

text \<open>
  The values of \<^verbatim>\<open>float(s)\<close>. A finite value is the exact number the text denotes
  (its rounding to double precision is not modelled, its overflow to infinity is);
  the built-in also reads \<^verbatim>\<open>inf\<close>, \<^verbatim>\<open>infinity\<close> and \<^verbatim>\<open>nan\<close>.
\<close>

datatype pyfloat = Finite real | PosInf | NegInf | NaN

definition nonneg :: "pyfloat \<Rightarrow> bool" where
  "nonneg v = (case v of Finite r \<Rightarrow> 0 \<le> r | PosInf \<Rightarrow> True | NegInf \<Rightarrow> False | NaN \<Rightarrow> False)"

text \<open>
  The grammar of \<^verbatim>\<open>float\<close>:
  \<^verbatim>\<open>
  digitpart   ::= digit (["_"] digit)*
  number      ::= [digitpart] "." digitpart | digitpart ["."]
  exponent    ::= ("e" | "E") ["+" | "-"] digitpart
  floatnumber ::= number [exponent]
  floatvalue  ::= ["+" | "-"] (floatnumber | "inf" | "infinity" | "nan")
  \<close>
  \<open>digits_more\<close> reads \<^verbatim>\<open>(["_"] digit)*\<close> and returns the digits and the rest.
\<close>

fun digits_more :: "string \<Rightarrow> string \<times> string" where
  "digits_more [] = ([], [])"
| "digits_more [c] = (if is_digit c then ([c], []) else ([], [c]))"
| "digits_more (c # d # cs) =
     (if is_digit c then (case digits_more (d # cs) of (ds, r) \<Rightarrow> (c # ds, r))
      else if c = CHR ''_'' \<and> is_digit d then (case digits_more cs of (ds, r) \<Rightarrow> (d # ds, r))
      else ([], c # d # cs))"

definition digitpart :: "string \<Rightarrow> (string \<times> string) option" where
  "digitpart s =
     (case s of
        [] \<Rightarrow> None
      | c # cs \<Rightarrow>
          if is_digit c then (case digits_more cs of (ds, r) \<Rightarrow> Some (c # ds, r)) else None)"

definition digit_val :: "char \<Rightarrow> int" where
  "digit_val c =
     (case map_of (zip ''0123456789'' [0, 1, 2, 3, 4, 5, 6, 7, 8, 9]) c of
        Some n \<Rightarrow> n
      | None \<Rightarrow> 0)"

definition int_of_digits :: "string \<Rightarrow> int" where
  "int_of_digits ds = foldl (\<lambda>n c. 10 * n + digit_val c) 0 ds"

definition after_char :: "char \<Rightarrow> string \<Rightarrow> string option" where
  "after_char x s = (case s of [] \<Rightarrow> None | c # cs \<Rightarrow> if c = x then Some cs else None)"

text \<open>\<open>number\<close>: the digits before the point, the digits after it, and the rest.\<close>

definition float_digits :: "string \<Rightarrow> (string \<times> string \<times> string) option" where
  "float_digits s =
     (case digitpart s of
        Some (ip, r1) \<Rightarrow>
          (case after_char CHR ''.'' r1 of
             None \<Rightarrow> Some (ip, [], r1)
           | Some r2 \<Rightarrow>
               (case digitpart r2 of
                  None \<Rightarrow> Some (ip, [], r2)
                | Some (fp, r3) \<Rightarrow> Some (ip, fp, r3)))
      | None \<Rightarrow>
          (case after_char CHR ''.'' s of
             None \<Rightarrow> None
           | Some r2 \<Rightarrow>
               (case digitpart r2 of
                  None \<Rightarrow> None
                | Some (fp, r3) \<Rightarrow> Some ([], fp, r3))))"

text \<open>\<open>[exponent]\<close> up to the end of the text: the power of ten, \<open>None\<close> when ill-formed.\<close>

definition float_exponent :: "string \<Rightarrow> int option" where
  "float_exponent r =
     (case r of
        [] \<Rightarrow> Some 0
      | c # r1 \<Rightarrow>
          if c = CHR ''e'' \<or> c = CHR ''E'' then
            (case after_char CHR ''-'' r1 of
               Some r2 \<Rightarrow>
                 (case digitpart r2 of
                    Some (ds, []) \<Rightarrow> Some (- int_of_digits ds)
                  | _ \<Rightarrow> None)
             | None \<Rightarrow>
                 (case digitpart (case after_char CHR ''+'' r1 of Some r2 \<Rightarrow> r2 | None \<Rightarrow> r1) of
                    Some (ds, []) \<Rightarrow> Some (int_of_digits ds)
                  | _ \<Rightarrow> None))
          else None)"

definition pow10 :: "int \<Rightarrow> real" where
  "pow10 e = (if 0 \<le> e then 10 ^ nat e else 1 / 10 ^ nat (- e))"

definition float_number :: "string \<Rightarrow> real option" where
  "float_number s =
     (case float_digits s of
        None \<Rightarrow> None
      | Some (ip, fp, r) \<Rightarrow>
          (case float_exponent r of
             None \<Rightarrow> None
           | Some e \<Rightarrow>
               Some ((of_int (int_of_digits ip) + of_int (int_of_digits fp) / 10 ^ length fp) * pow10 e)))"

text \<open>
  The least magnitude that double precision rounds to infinity,
  \<open>2 ^ 1024 - 2 ^ 970\<close>: a decimal text of that magnitude or more reads as \<^verbatim>\<open>inf\<close>.
\<close>

definition double_overflow :: real where
  "double_overflow = 179769313486231580793728971405303415079934132710037826936173778980444968292764750946649017977587207096330286416692887910946555547851940402630657488671505820681908902000708383676273854845817711531764475730270069855571366959622842914819860834936475292719074168444365510704342711559699508093042880177904174497792"

definition float_round :: "bool \<Rightarrow> real \<Rightarrow> pyfloat" where
  "float_round neg x =
     (if double_overflow \<le> x then (if neg then NegInf else PosInf)
      else Finite (if neg then - x else x))"

text \<open>\<open>absfloatvalue\<close>, the sign being read already.\<close>

definition float_abs :: "bool \<Rightarrow> string \<Rightarrow> pyfloat option" where
  "float_abs neg u =
     (if py_lower u = ''inf'' \<or> py_lower u = ''infinity'' then Some (if neg then NegInf else PosInf)
      else if py_lower u = ''nan'' then Some NaN
      else (case float_number u of
              None \<Rightarrow> None
            | Some x \<Rightarrow> Some (float_round neg x)))"

text \<open>\<^verbatim>\<open>float(s)\<close>; \<open>None\<close> is \<^verbatim>\<open>ValueError\<close>.\<close>

definition py_float :: "string \<Rightarrow> pyfloat option" where
  "py_float s =
     (case after_char CHR ''-'' (py_strip s) of
        Some u \<Rightarrow> float_abs True u
      | None \<Rightarrow>
          (case after_char CHR ''+'' (py_strip s) of
             Some u \<Rightarrow> float_abs False u
           | None \<Rightarrow> float_abs False (py_strip s)))"

text \<open>The characters left of the first group of the quantity pattern without its commas.\<close>

definition plain :: "char \<Rightarrow> bool" where
  "plain c = (is_digit c \<or> c = CHR ''.'')"

definition unit_words :: "string list" where
  "unit_words = [''feet'', ''ft'', ''foot'', ''ea'', ''each'', ''lot'', ''box'']"

text \<open>
  The first group of the pattern, \<^verbatim>\<open>([\d,]+\.?\d*)\<close>, at the front of the string: the
  matched text and the rest. What follows it in the pattern can match the empty
  string, so each part takes the longest run.
\<close>

definition match_number :: "string \<Rightarrow> (string \<times> string) option" where
  "match_number s =
     (let a = takeWhile (\<lambda>c. is_digit c \<or> c = CHR '','') s;
          r1 = dropWhile (\<lambda>c. is_digit c \<or> c = CHR '','') s
      in if a = [] then None
         else (case after_char CHR ''.'' r1 of
                 None \<Rightarrow> Some (a, r1)
               | Some r2 \<Rightarrow> Some (a @ ''.'' @ takeWhile is_digit r2, dropWhile is_digit r2)))"

text \<open>
  The rest of the pattern, \<^verbatim>\<open>\s*(feet|ft|foot|ea|each|lot|box)?\<close> under
  \<^verbatim>\<open>re.I\<close>: the first alternative that is a prefix of what follows the white space,
  whatever its case; the result is \<^verbatim>\<open>(match.group(2) or '').lower()\<close>.
\<close>

definition match_unit :: "string \<Rightarrow> string" where
  "match_unit r =
     (case find (\<lambda>w. prefix w (py_lower (dropWhile is_space r))) unit_words of
        Some w \<Rightarrow> w
      | None \<Rightarrow> [])"

text \<open>
  \<^verbatim>\<open>
  def parse_quantity(qty_str):
      qty_str = str(qty_str).strip()
      match = re.match(r'([\d,]+\.?\d*)\s*(feet|ft|foot|ea|each|lot|box)?', qty_str, re.I)
      if match:
          val = float(match.group(1).replace(',', ''))
          unit = (match.group(2) or '').lower()
          return val, unit
      try:
          return float(qty_str.replace(',', '')), ''
      except ValueError:
          return 0, ''
  \<close>
  The call of \<^verbatim>\<open>float\<close> in the first branch is outside the \<^verbatim>\<open>try\<close>.
\<close>

definition parse_quantity :: "string \<Rightarrow> py_error + (pyfloat \<times> string)" where
  "parse_quantity qty_str =
     (case match_number (py_strip qty_str) of
        Some (g1, r) \<Rightarrow>
          (case py_float (py_replace '','' [] g1) of
             None \<Rightarrow> Inl ValueError
           | Some val \<Rightarrow> Inr (val, match_unit r))
      | None \<Rightarrow>
          (case py_float (py_replace '','' [] (py_strip qty_str)) of
             Some val \<Rightarrow> Inr (val, [])
           | None \<Rightarrow> Inr (Finite 0, [])))"

subsection \<open>Sample rows\<close>

text \<open>Rows of a reference table, used to evaluate the matcher on concrete inputs.\<close>

definition emt_3_4 :: entry where
  "emt_3_4 = \<lparr>Section = ''EMT CONDUIT'', Category = ''EMT'', Item = [CHR ''3'', CHR ''/'', CHR ''4'', CHR 0x22],
     Easy = ''4.0'', Average = ''5.0'', Difficult = ''6.0'', Remodel = ''7.0'',
     Old_Work = ''8.0'', Unit = ''C''\<rparr>"

definition emt_elbow_1_2 :: entry where
  "emt_elbow_1_2 = \<lparr>Section = ''EMT FITTINGS'', Category = ''ELBOWS'', Item = [CHR ''1'', CHR ''/'', CHR ''2'', CHR 0x22],
     Easy = ''10.0'', Average = ''12.0'', Difficult = ''15.0'', Remodel = ''18.0'',
     Old_Work = ''20.0'', Unit = ''C''\<rparr>"

definition pvc_coupling_3_4 :: entry where
  "pvc_coupling_3_4 = \<lparr>Section = ''PVC CONDUIT'', Category = ''COUPLINGS'', Item = [CHR ''3'', CHR ''/'', CHR ''4'', CHR 0x22],
     Easy = ''5.0'', Average = ''6.0'', Difficult = ''7.5'', Remodel = ''9.0'',
     Old_Work = ''10.0'', Unit = ''C''\<rparr>"

definition emt_elbow_1 :: entry where
  "emt_elbow_1 = \<lparr>Section = ''EMT FITTINGS'', Category = ''ELBOWS'', Item = [CHR ''1'', CHR 0x22],
     Easy = ''12.0'', Average = ''15.0'', Difficult = ''18.0'', Remodel = ''22.0'',
     Old_Work = ''25.0'', Unit = ''C''\<rparr>"

section \<open>Theorems\<close>

text \<open>
  C1. For every quantity, labor value and labor unit, the extension is
  \<open>quantity * labor_value\<close> for unit \<open>E\<close>, \<open>(quantity / 100) * labor_value\<close> for
  unit \<open>C\<close>, \<open>(quantity / 1000) * labor_value\<close> for unit \<open>M\<close>, and the per-each
  product for every other unit string; the quantity unit never changes the result.
\<close>

theorem calculate_labor_extension_formula:
  "calculate_labor_extension q qu v ''E'' = q * v
   \<and> calculate_labor_extension q qu v ''C'' = (q / 100) * v
   \<and> calculate_labor_extension q qu v ''M'' = (q / 1000) * v
   \<and> (u \<noteq> ''E'' \<and> u \<noteq> ''C'' \<and> u \<noteq> ''M'' \<longrightarrow> calculate_labor_extension q qu v u = q * v)
   \<and> calculate_labor_extension q qu v u = calculate_labor_extension q qu' v u"
  by (simp add: calculate_labor_extension_def)

theorem calculate_labor_extension_witness:
  "calculate_labor_extension 250 ''feet'' 5 ''C'' = 25 / 2
   \<and> ''X'' \<noteq> ''E'' \<and> ''X'' \<noteq> ''C'' \<and> ''X'' \<noteq> ''M''
   \<and> calculate_labor_extension 250 ''feet'' 5 ''X'' = 1250
   \<and> calculate_labor_extension 250 ''feet'' 5 ''X'' = calculate_labor_extension 250 ''each'' 5 ''X''"
  using calculate_labor_extension_formula [of 250 "''feet''" 5 "''X''" "''each''"]
  by simp

subsection \<open>Facts about the matcher\<close>

lemma candidates_filter:
  "candidates fz es q =
     map (\<lambda>e. (e, py_round1 (raw_score fz q e), reason_text fz q e)) (filter (qualifies fz q) es)"
  by (induction es)
     (simp_all add: candidates_def qualify_def raw_score_def reason_text_def qualifies_def Let_def)

lemma raw_score_tenths: "\<exists>k::int. raw_score fz q e = of_int k / 10"
proof -
  obtain a f where "raw_score fz q e = of_int a + of_int f * (3 / 10)"
    by (simp add: raw_score_def score_entry_def Let_def)
  then have "raw_score fz q e = of_int (10 * a + 3 * f) / 10"
    by simp
  then show ?thesis by blast
qed

lemma py_round1_tenths: "py_round1 (of_int k / 10) = of_int k / 10"
  by (simp add: py_round1_def Let_def)

lemma qualifies_round:
  assumes "qualifies fz q e"
  shows "py_round1 (raw_score fz q e) = raw_score fz q e" and "201 / 10 \<le> raw_score fz q e"
proof -
  obtain k :: int where k: "raw_score fz q e = of_int k / 10"
    using raw_score_tenths by blast
  show "py_round1 (raw_score fz q e) = raw_score fz q e"
    by (simp add: k py_round1_tenths)
  have "20 < (of_int k :: real) / 10" using assms k by (simp add: qualifies_def)
  then have "(200::real) < of_int k" by simp
  then have "200 < k" by linarith
  then have "201 \<le> k" by simp
  then have "(201::real) \<le> of_int k" by linarith
  then show "201 / 10 \<le> raw_score fz q e" by (simp add: k)
qed

lemma sort_key_head:
  assumes "sort_key f xs = r # rs"
  shows "r \<in> set xs" and "\<forall>x\<in>set xs. f r \<le> f x"
proof -
  have "set (sort_key f xs) = set xs" by simp
  then show "r \<in> set xs" using assms by (metis list.set_intros(1))
  have "sorted (map f (sort_key f xs))" by (rule sorted_sort_key)
  then have "\<forall>x\<in>set rs. f r \<le> f x" using assms by simp
  moreover have "set xs = insert r (set rs)"
    using assms \<open>set (sort_key f xs) = set xs\<close> by (metis list.simps(15))
  ultimately show "\<forall>x\<in>set xs. f r \<le> f x" by simp
qed

lemma best_match_cases:
  "best_match fz m q =
     (case sort_key (\<lambda>r. - fst (snd r)) (candidates fz (entries m) q) of
        [] \<Rightarrow> (None, 0, ''No match found'')
      | r # _ \<Rightarrow> (Some (fst r), min 100 (fst (snd r)), snd (snd r)))"
  by (simp add: best_match_def search_def py_slice_to_def split: list.splits)

lemma best_match_head:
  assumes "candidates fz (entries m) q \<noteq> []"
  shows "\<exists>r\<in>set (candidates fz (entries m) q).
           (\<forall>x\<in>set (candidates fz (entries m) q). fst (snd x) \<le> fst (snd r))
           \<and> best_match fz m q = (Some (fst r), min 100 (fst (snd r)), snd (snd r))"
proof -
  define cs where "cs = candidates fz (entries m) q"
  define f where "f = (\<lambda>r::match_result. - fst (snd r))"
  have "length (sort_key f cs) = length cs" by (rule length_sort)
  moreover have "cs \<noteq> []" unfolding cs_def by (rule assms)
  ultimately have "sort_key f cs \<noteq> []" by (metis length_0_conv)
  then obtain r rs where srt: "sort_key f cs = r # rs"
    by (cases "sort_key f cs") simp_all
  have rin: "r \<in> set cs" and rmin: "\<forall>x\<in>set cs. f r \<le> f x"
    using sort_key_head [OF srt] by blast+
  have le: "\<forall>x\<in>set cs. fst (snd x) \<le> fst (snd r)"
  proof
    fix x assume "x \<in> set cs"
    then have "f r \<le> f x" using rmin by blast
    then show "fst (snd x) \<le> fst (snd r)" by (simp only: f_def neg_le_iff_le)
  qed
  have "best_match fz m q = (Some (fst r), min 100 (fst (snd r)), snd (snd r))"
    unfolding best_match_cases using srt unfolding cs_def f_def by simp
  then show ?thesis using rin le unfolding cs_def by blast
qed

lemma top_score_eq:
  assumes "e \<in> set es" and "qualifies fz q e"
    and "\<forall>e'\<in>set es. qualifies fz q e' \<longrightarrow> py_round1 (raw_score fz q e') \<le> py_round1 (raw_score fz q e)"
  shows "top_score fz es q = py_round1 (raw_score fz q e)"
  unfolding top_score_def
proof (rule Max_eqI)
  show "finite (set (map (\<lambda>e. py_round1 (raw_score fz q e)) (filter (qualifies fz q) es)))"
    by (rule finite_set)
next
  fix y assume "y \<in> set (map (\<lambda>e. py_round1 (raw_score fz q e)) (filter (qualifies fz q) es))"
  then obtain e' where "e' \<in> set es" "qualifies fz q e'" "y = py_round1 (raw_score fz q e')"
    by auto
  then show "y \<le> py_round1 (raw_score fz q e)" using assms(3) by blast
next
  show "py_round1 (raw_score fz q e) \<in> set (map (\<lambda>e. py_round1 (raw_score fz q e)) (filter (qualifies fz q) es))"
    using assms(1,2) by auto
qed

lemma in_candidates:
  "r \<in> set (candidates fz es q) \<longleftrightarrow>
     (\<exists>e\<in>set es. qualifies fz q e \<and> r = (e, py_round1 (raw_score fz q e), reason_text fz q e))"
  unfolding candidates_filter by auto

lemma best_match_some:
  assumes "\<exists>e\<in>set (entries m). qualifies fz q e"
  shows "\<exists>e\<in>set (entries m). qualifies fz q e
           \<and> py_round1 (raw_score fz q e) = top_score fz (entries m) q
           \<and> best_match fz m q = (Some e, min 100 (top_score fz (entries m) q), reason_text fz q e)"
proof -
  from assms obtain e0 where "e0 \<in> set (entries m)" "qualifies fz q e0" by blast
  then have "(e0, py_round1 (raw_score fz q e0), reason_text fz q e0) \<in> set (candidates fz (entries m) q)"
    unfolding in_candidates by blast
  then have "candidates fz (entries m) q \<noteq> []" by (metis empty_iff empty_set)
  from best_match_head [OF this] obtain r where
    rin: "r \<in> set (candidates fz (entries m) q)" and
    le: "\<forall>x\<in>set (candidates fz (entries m) q). fst (snd x) \<le> fst (snd r)" and
    bm: "best_match fz m q = (Some (fst r), min 100 (fst (snd r)), snd (snd r))"
    by blast
  from rin obtain e where e: "e \<in> set (entries m)" "qualifies fz q e"
    and r: "r = (e, py_round1 (raw_score fz q e), reason_text fz q e)"
    unfolding in_candidates by blast
  have "\<forall>e'\<in>set (entries m). qualifies fz q e' \<longrightarrow>
          py_round1 (raw_score fz q e') \<le> py_round1 (raw_score fz q e)"
  proof (intro ballI impI)
    fix e' assume "e' \<in> set (entries m)" "qualifies fz q e'"
    then have "(e', py_round1 (raw_score fz q e'), reason_text fz q e') \<in> set (candidates fz (entries m) q)"
      unfolding in_candidates by blast
    then have "fst (snd (e', py_round1 (raw_score fz q e'), reason_text fz q e')) \<le> fst (snd r)"
      using le by blast
    then show "py_round1 (raw_score fz q e') \<le> py_round1 (raw_score fz q e)"
      by (simp add: r)
  qed
  then have top: "top_score fz (entries m) q = py_round1 (raw_score fz q e)"
    by (rule top_score_eq [OF e])
  have "best_match fz m q = (Some e, min 100 (top_score fz (entries m) q), reason_text fz q e)"
    by (simp add: bm r top)
  then show ?thesis using e top by auto
qed

lemma best_match_none:
  assumes "\<not> (\<exists>e\<in>set (entries m). qualifies fz q e)"
  shows "best_match fz m q = (None, 0, ''No match found'')"
proof -
  have "filter (qualifies fz q) (entries m) = []"
    using assms by (simp add: filter_empty_conv)
  then have "candidates fz (entries m) q = []"
    by (simp add: candidates_filter)
  then show ?thesis by (simp add: best_match_cases)
qed

lemma best_match_range:
  "0 \<le> fst (snd (best_match fz m q)) \<and> fst (snd (best_match fz m q)) \<le> 100"
proof (cases "\<exists>e\<in>set (entries m). qualifies fz q e")
  case False
  then show ?thesis by (simp add: best_match_none)
next
  case True
  then obtain e where e: "qualifies fz q e"
    "py_round1 (raw_score fz q e) = top_score fz (entries m) q"
    "best_match fz m q = (Some e, min 100 (top_score fz (entries m) q), reason_text fz q e)"
    using best_match_some by blast
  have "201 / 10 \<le> top_score fz (entries m) q"
    using qualifies_round [OF e(1)] e(2) by simp
  then show ?thesis by (simp add: e(3))
qed

text \<open>
  C2. For every reference table (also the empty one) and every query string, the
  confidence of \<open>best_match\<close> lies in \<open>[0, 100]\<close>; when some entry qualifies, it is
  \<open>min 100\<close> of the top score and the entry returned is a qualifying entry of the
  table with that score; when no entry qualifies, the result is the absent entry,
  confidence \<open>0\<close> and the fixed reason \<open>No match found\<close>.
\<close>

theorem best_match_confidence:
  "0 \<le> fst (snd (best_match fz m q)) \<and> fst (snd (best_match fz m q)) \<le> 100
   \<and> ((\<exists>e\<in>set (entries m). qualifies fz q e) \<longrightarrow>
        (\<exists>e\<in>set (entries m). qualifies fz q e
           \<and> py_round1 (raw_score fz q e) = top_score fz (entries m) q
           \<and> best_match fz m q = (Some e, min 100 (top_score fz (entries m) q), reason_text fz q e)))
   \<and> (\<not> (\<exists>e\<in>set (entries m). qualifies fz q e) \<longrightarrow>
        best_match fz m q = (None, 0, ''No match found''))"
  using best_match_range best_match_some best_match_none by blast


text \<open>
  The instances below evaluate the matcher with a constant similarity. For the query
  \<open>3/4 emt\<close> and the row \<open>emt_3_4\<close> the value \<open>100\<close> is the one of
  \<^verbatim>\<open>token_set_ratio\<close>, every word of the query being a word of the row; for the
  empty query it is \<open>0\<close>.
\<close>

theorem best_match_confidence_witness:
  "(\<exists>e\<in>set (entries \<lparr>entries = [emt_3_4]\<rparr>). qualifies (\<lambda>a b. 100) ''3/4 emt'' e)
   \<and> best_match (\<lambda>a b. 100) \<lparr>entries = [emt_3_4]\<rparr> ''3/4 emt''
       = (Some emt_3_4, 100, ''type_match:emt, size_match:3/4, keyword:3/4, keyword:emt, fuzzy:100'')
   \<and> top_score (\<lambda>a b. 100) [emt_3_4] ''3/4 emt'' = 130
   \<and> \<not> (\<exists>e\<in>set (entries \<lparr>entries = [emt_3_4]\<rparr>). qualifies (\<lambda>a b. 0) [] e)
   \<and> best_match (\<lambda>a b. 0) \<lparr>entries = [emt_3_4]\<rparr> [] = (None, 0, ''No match found'')"
proof -
  have q: "qualifies (\<lambda>a b. 100) ''3/4 emt'' emt_3_4" by code_simp
  have nq: "\<not> qualifies (\<lambda>a b. 0) [] emt_3_4" by code_simp
  have ts: "top_score (\<lambda>a b. 100) [emt_3_4] ''3/4 emt'' = 130" by code_simp
  have rt: "reason_text (\<lambda>a b. 100) ''3/4 emt'' emt_3_4 = ''type_match:emt, size_match:3/4, keyword:3/4, keyword:emt, fuzzy:100''" by code_simp
  show ?thesis
    using best_match_confidence [of "\<lambda>a b. 100" "\<lparr>entries = [emt_3_4]\<rparr>" "''3/4 emt''"]
      best_match_confidence [of "\<lambda>a b. 0" "\<lparr>entries = [emt_3_4]\<rparr>" "[]"] q nq ts rt
    by simp
qed
lemma set_py_slice_to: "set (py_slice_to n xs) \<subseteq> set xs"
  by (simp add: py_slice_to_def set_take_subset)

lemma set_search: "set (search fz m q n) \<subseteq> set (candidates fz (entries m) q)"
proof -
  have "set (search fz m q n) \<subseteq> set (sort_key (\<lambda>r. - fst (snd r)) (candidates fz (entries m) q))"
    unfolding search_def by (rule set_py_slice_to)
  then show ?thesis by simp
qed

lemma search_member:
  assumes "r \<in> set (search fz m q n)"
  shows "fst r \<in> set (entries m) \<and> qualifies fz q (fst r)
         \<and> fst (snd r) = py_round1 (raw_score fz q (fst r))
         \<and> snd (snd r) = reason_text fz q (fst r)"
proof -
  have "r \<in> set (candidates fz (entries m) q)" using assms set_search by blast
  then obtain e where "e \<in> set (entries m)" "qualifies fz q e"
    "r = (e, py_round1 (raw_score fz q e), reason_text fz q e)"
    unfolding in_candidates by blast
  then show ?thesis by simp
qed

lemma filter_take_prefix: "prefix (filter P (take n xs)) (filter P xs)"
proof -
  have "filter P xs = filter P (take n xs) @ filter P (drop n xs)"
    by (metis append_take_drop_id filter_append)
  then show ?thesis by (metis prefixI)
qed

lemma filter_slice_prefix: "prefix (filter P (py_slice_to n xs)) (filter P xs)"
  by (simp add: py_slice_to_def filter_take_prefix)

lemma sorted_slice: "sorted_wrt R xs \<Longrightarrow> sorted_wrt R (py_slice_to n xs)"
  by (simp add: py_slice_to_def sorted_wrt_take)

lemma sort_desc_sorted:
  "sorted_wrt (\<lambda>a b. fst (snd b) \<le> fst (snd a)) (sort_key (\<lambda>r::match_result. - fst (snd r)) cs)"
proof -
  have "sorted (map (\<lambda>r::match_result. - fst (snd r)) (sort_key (\<lambda>r. - fst (snd r)) cs))"
    by (rule sorted_sort_key)
  then show ?thesis by (simp add: sorted_map)
qed

lemma sort_desc_stable:
  "filter (\<lambda>r. fst (snd r) = s) (sort_key (\<lambda>r::match_result. - fst (snd r)) cs)
     = filter (\<lambda>r. fst (snd r) = s) cs"
proof -
  have "filter (\<lambda>r. - fst (snd r) = - s) (sort_key (\<lambda>r::match_result. - fst (snd r)) cs)
          = filter (\<lambda>r. - fst (snd r) = - s) cs"
    by (rule sort_key_stable)
  then show ?thesis by simp
qed

lemma candidates_by_score:
  "map fst (filter (\<lambda>r. fst (snd r) = s) (candidates fz es q))
     = filter (\<lambda>e. qualifies fz q e \<and> py_round1 (raw_score fz q e) = s) es"
  unfolding candidates_filter
  by (induction es) simp_all

lemma search_stable:
  "prefix (map fst (filter (\<lambda>r. fst (snd r) = s) (search fz m q n)))
          (filter (\<lambda>e. qualifies fz q e \<and> py_round1 (raw_score fz q e) = s) (entries m))"
proof -
  let ?P = "\<lambda>r::match_result. fst (snd r) = s"
  have "prefix (filter ?P (search fz m q n))
          (filter ?P (sort_key (\<lambda>r. - fst (snd r)) (candidates fz (entries m) q)))"
    unfolding search_def by (rule filter_slice_prefix)
  then have "prefix (filter ?P (search fz m q n)) (filter ?P (candidates fz (entries m) q))"
    by (simp only: sort_desc_stable)
  then have "prefix (map fst (filter ?P (search fz m q n)))
               (map fst (filter ?P (candidates fz (entries m) q)))"
    by (rule map_mono_prefix)
  then show ?thesis by (simp only: candidates_by_score)
qed

lemma search_length: "0 \<le> n \<Longrightarrow> length (search fz m q n) \<le> nat n"
  by (simp add: search_def py_slice_to_def)

text \<open>
  C3, as amended. For every reference table, query and \<open>top_n\<close>: when \<open>top_n\<close> is
  not negative, \<open>search\<close> returns at most \<open>top_n\<close> results; the results are sorted by
  score, descending; the entries of the results of one score are the first qualifying
  entries of that score in the order of the table; and the result depends on the
  matcher through its table only.
\<close>

theorem search_sorted_stable:
  "(0 \<le> top_n \<longrightarrow> length (search fz m q top_n) \<le> nat top_n)
   \<and> sorted_wrt (\<lambda>a b. fst (snd b) \<le> fst (snd a)) (search fz m q top_n)
   \<and> (\<forall>s. prefix (map fst (filter (\<lambda>r. fst (snd r) = s) (search fz m q top_n)))
                  (filter (\<lambda>e. qualifies fz q e \<and> py_round1 (raw_score fz q e) = s) (entries m)))
   \<and> (entries m' = entries m \<longrightarrow> search fz m' q top_n = search fz m q top_n)"
proof (intro conjI impI allI)
  show "length (search fz m q top_n) \<le> nat top_n" if "0 \<le> top_n"
    using that by (rule search_length)
  show "sorted_wrt (\<lambda>a b. fst (snd b) \<le> fst (snd a)) (search fz m q top_n)"
    unfolding search_def by (rule sorted_slice [OF sort_desc_sorted])
  show "prefix (map fst (filter (\<lambda>r. fst (snd r) = s) (search fz m q top_n)))
                  (filter (\<lambda>e. qualifies fz q e \<and> py_round1 (raw_score fz q e) = s) (entries m))" for s
    by (rule search_stable)
  show "search fz m' q top_n = search fz m q top_n" if "entries m' = entries m"
    using that by (simp add: search_def)
qed

text \<open>
  C10. The confidence of \<open>best_match\<close> is \<open>0\<close> when the entry is absent and lies in
  \<open>(20, 100]\<close> otherwise; every result of \<open>search\<close> has a raw score above \<open>20\<close> and
  reports that score rounded to one decimal place, which is above \<open>20\<close> too.
\<close>

theorem best_match_confidence_gap:
  "(case best_match fz m q of
      (None, c, r) \<Rightarrow> c = 0
    | (Some e, c, r) \<Rightarrow> 20 < c \<and> c \<le> 100)
   \<and> (\<forall>r\<in>set (search fz m q n).
         20 < raw_score fz q (fst r)
         \<and> fst (snd r) = py_round1 (raw_score fz q (fst r))
         \<and> 20 < fst (snd r))"
proof (intro conjI ballI)
  show "case best_match fz m q of
      (None, c, r) \<Rightarrow> c = 0
    | (Some e, c, r) \<Rightarrow> 20 < c \<and> c \<le> 100"
  proof (cases "\<exists>e\<in>set (entries m). qualifies fz q e")
    case False
    then show ?thesis by (simp add: best_match_none)
  next
    case True
    then obtain e where e: "qualifies fz q e"
      "py_round1 (raw_score fz q e) = top_score fz (entries m) q"
      "best_match fz m q = (Some e, min 100 (top_score fz (entries m) q), reason_text fz q e)"
      using best_match_some by blast
    have "201 / 10 \<le> top_score fz (entries m) q"
      using qualifies_round [OF e(1)] e(2) by simp
    then show ?thesis by (simp add: e(3))
  qed
next
  fix r assume "r \<in> set (search fz m q n)"
  then have q: "qualifies fz q (fst r)" and s: "fst (snd r) = py_round1 (raw_score fz q (fst r))"
    using search_member by blast+
  show "20 < raw_score fz q (fst r)" using q by (simp add: qualifies_def)
  show "fst (snd r) = py_round1 (raw_score fz q (fst r))" by (rule s)
  show "20 < fst (snd r)" using qualifies_round [OF q] s by simp
qed


subsection \<open>Facts about the quantity parser\<close>

lemma replace_from_single:
  "replace_from 0 [c] new s = concat (map (\<lambda>x. if x = c then new else [x]) s)"
  by (induction s) auto

lemma py_replace_delete: "py_replace [c] [] s = filter (\<lambda>x. x \<noteq> c) s"
proof -
  have "concat (map (\<lambda>x. if x = c then [] else [x]) s) = filter (\<lambda>x. x \<noteq> c) s"
    by (induction s) simp_all
  then show ?thesis by (simp add: py_replace_def replace_from_single)
qed

lemma match_number_chars:
  assumes "match_number s = Some (g, r)"
  shows "\<forall>c\<in>set (py_replace '','' [] g). plain c"
proof -
  define P where "P = (\<lambda>c. is_digit c \<or> c = CHR '','')"
  define a where "a = takeWhile P s"
  define r1 where "r1 = dropWhile P s"
  have a: "\<forall>c\<in>set a. P c" unfolding a_def by (metis set_takeWhileD)
  have d: "\<forall>c\<in>set (takeWhile is_digit t). is_digit c" for t by (metis set_takeWhileD)
  have m: "match_number s =
     (if a = [] then None
      else (case after_char CHR ''.'' r1 of
              None \<Rightarrow> Some (a, r1)
            | Some r2 \<Rightarrow> Some (a @ ''.'' @ takeWhile is_digit r2, dropWhile is_digit r2)))"
    by (simp only: match_number_def Let_def a_def r1_def P_def)
  have g: "g = a \<or> (\<exists>r2. g = a @ ''.'' @ takeWhile is_digit r2)"
  proof (cases "after_char CHR ''.'' r1")
    case None
    then show ?thesis using assms m by (simp split: if_splits)
  next
    case (Some r2)
    then show ?thesis using assms m by (auto split: if_splits)
  qed
  have "\<forall>c\<in>set g. P c \<or> c = CHR ''.''"
    using g a d by (auto simp: P_def)
  then have "\<forall>c\<in>set (filter (\<lambda>x. x \<noteq> CHR '','') g). plain c"
    by (auto simp: P_def plain_def)
  then show ?thesis by (simp only: py_replace_delete)
qed

lemma plain_not_space: "plain c \<Longrightarrow> \<not> is_space c"
  by (auto simp: plain_def is_digit_def is_space_def)

lemma plain_not_upper: "plain c \<Longrightarrow> c \<notin> set upper_letters"
  by (auto simp: plain_def is_digit_def upper_letters_def)

lemma lower_char_id:
  assumes "c \<notin> set upper_letters"
  shows "lower_char c = c"
proof -
  have "length upper_letters = length lower_letters"
    by (simp add: upper_letters_def lower_letters_def)
  then have "map_of (zip upper_letters lower_letters) c = None"
    using assms map_of_zip_is_None [of upper_letters lower_letters c] by blast
  then show ?thesis by (simp only: lower_char_def option.case)
qed

lemma plain_lower: "plain c \<Longrightarrow> lower_char c = c"
  by (rule lower_char_id [OF plain_not_upper])

lemma plain_strip:
  assumes "\<forall>c\<in>set t. plain c"
  shows "py_strip t = t"
proof -
  have 1: "dropWhile is_space t = t"
    using assms plain_not_space by (cases t) auto
  have "\<forall>c\<in>set (rev t). \<not> is_space c" using assms plain_not_space by auto
  then have 2: "dropWhile is_space (rev t) = rev t" by (cases "rev t") auto
  show ?thesis by (simp add: py_strip_def 1 2)
qed

lemma plain_py_lower:
  assumes "\<forall>c\<in>set t. plain c"
  shows "py_lower t = t"
  using assms by (simp add: py_lower_def plain_lower map_idI)

lemma int_of_digits_nonneg: "0 \<le> int_of_digits ds"
proof -
  have dv: "0 \<le> digit_val c" for c
    by (simp add: digit_val_def split: option.splits)
  have "0 \<le> n \<Longrightarrow> 0 \<le> foldl (\<lambda>n c. 10 * n + digit_val c) n ds" for n
  proof (induction ds arbitrary: n)
    case Nil then show ?case by simp
  next
    case (Cons c cs)
    have "0 \<le> 10 * n + digit_val c" using Cons.prems dv [of c] by simp
    then show ?case using Cons.IH by simp
  qed
  then show ?thesis by (simp add: int_of_digits_def)
qed

lemma pow10_pos: "0 < pow10 e"
  by (simp add: pow10_def)

lemma float_number_nonneg:
  assumes "float_number u = Some x"
  shows "0 \<le> x"
proof -
  obtain ip fp e where x: "x = (of_int (int_of_digits ip) + of_int (int_of_digits fp) / 10 ^ length fp) * pow10 e"
    using assms by (auto simp: float_number_def split: option.splits)
  have "0 \<le> (of_int (int_of_digits ip) :: real)" using int_of_digits_nonneg by simp
  moreover have "0 \<le> (of_int (int_of_digits fp) :: real) / 10 ^ length fp"
    using int_of_digits_nonneg by simp
  ultimately have "0 \<le> (of_int (int_of_digits ip) + of_int (int_of_digits fp) / 10 ^ length fp :: real)"
    by linarith
  then show ?thesis using pow10_pos [of e] by (simp add: x)
qed

lemma after_char_plain:
  assumes "\<not> plain x" and "\<forall>c\<in>set t. plain c"
  shows "after_char x t = None"
  using assms by (cases t) (auto simp: after_char_def)

lemma not_plain_letters:
  "\<not> plain CHR ''-''" "\<not> plain CHR ''+''" "\<not> plain CHR ''i''" "\<not> plain CHR ''n''"
  by (simp_all add: plain_def is_digit_def)

lemma py_float_plain:
  assumes "\<forall>c\<in>set t. plain c" and "py_float t = Some v"
  shows "nonneg v"
proof -
  have st: "py_strip t = t" using assms(1) by (rule plain_strip)
  have lo: "py_lower t = t" using assms(1) by (rule plain_py_lower)
  have nm: "after_char CHR ''-'' t = None"
    using not_plain_letters(1) assms(1) by (rule after_char_plain)
  have np: "after_char CHR ''+'' t = None"
    using not_plain_letters(2) assms(1) by (rule after_char_plain)
  have i: "CHR ''i'' \<notin> set t" and n: "CHR ''n'' \<notin> set t"
    using assms(1) not_plain_letters by blast+
  have ni: "t \<noteq> ''inf''" "t \<noteq> ''infinity''" "t \<noteq> ''nan''"
    using i n by auto
  have fa: "float_abs False t =
      (case float_number t of None \<Rightarrow> None | Some x \<Rightarrow> Some (float_round False x))"
    by (simp add: float_abs_def lo ni split: option.splits)
  have "py_float t = float_abs False t"
    by (simp add: py_float_def st nm np)
  then obtain x where "float_number t = Some x" "v = float_round False x"
    using assms(2) fa by (cases "float_number t") simp_all
  then show ?thesis using float_number_nonneg by (simp add: nonneg_def float_round_def)
qed

lemma match_unit_words: "match_unit r \<in> set ([] # unit_words)"
proof (cases "find (\<lambda>w. prefix w (py_lower (dropWhile is_space r))) unit_words")
  case None
  then show ?thesis by (simp add: match_unit_def)
next
  case (Some w)
  then have "w \<in> set unit_words" by (auto simp: find_Some_iff)
  then show ?thesis using Some by (simp add: match_unit_def)
qed

lemma match_unit_cases:
  "(match_unit r \<noteq> [] \<longrightarrow>
      match_unit r \<in> set unit_words \<and> prefix (match_unit r) (py_lower (dropWhile is_space r)))
   \<and> (match_unit r = [] \<longrightarrow>
      (\<forall>w\<in>set unit_words. \<not> prefix w (py_lower (dropWhile is_space r))))"
proof (cases "find (\<lambda>w. prefix w (py_lower (dropWhile is_space r))) unit_words")
  case None
  then have "\<forall>w\<in>set unit_words. \<not> prefix w (py_lower (dropWhile is_space r))"
    by (simp add: find_None_iff)
  then show ?thesis using None by (simp add: match_unit_def)
next
  case (Some w)
  then have w: "w \<in> set unit_words" "prefix w (py_lower (dropWhile is_space r))"
    by (auto simp: find_Some_iff)
  have "[] \<notin> set unit_words" by (simp add: unit_words_def)
  then have "w \<noteq> []" using w(1) by blast
  then show ?thesis using Some w by (simp add: match_unit_def)
qed

text \<open>
  C9, as amended. Whenever \<open>parse_quantity\<close> returns a pair, the unit is one of
  the empty string, \<open>feet\<close>, \<open>ft\<close>, \<open>foot\<close>, \<open>ea\<close>, \<open>each\<close>, \<open>lot\<close>, \<open>box\<close>.
  When the leading numeric pattern matches, the value is what \<^verbatim>\<open>float\<close> reads from
  the first group without its commas, a non-negative number; the unit is lower-cased:
  it is a unit word that the lower-cased text after the number and its white space
  starts with, and it is empty only when that text starts with no unit word. When the
  pattern does not match, the unit is empty and the value is what \<^verbatim>\<open>float\<close> reads
  from the whole trimmed text without its commas, which can be negative, or \<open>0\<close> when
  that is not a number.
\<close>

theorem parse_quantity_well_formed:
  assumes "parse_quantity s = Inr (v, u)"
  shows "u \<in> {[], ''feet'', ''ft'', ''foot'', ''ea'', ''each'', ''lot'', ''box''}
         \<and> (\<forall>g r. match_number (py_strip s) = Some (g, r) \<longrightarrow>
               py_float (py_replace '','' [] g) = Some v \<and> nonneg v
               \<and> (u \<noteq> [] \<longrightarrow> prefix u (py_lower (dropWhile is_space r)))
               \<and> (u = [] \<longrightarrow> (\<forall>w\<in>set unit_words. \<not> prefix w (py_lower (dropWhile is_space r)))))
         \<and> (match_number (py_strip s) = None \<longrightarrow>
               u = []
               \<and> v = (case py_float (py_replace '','' [] (py_strip s)) of
                        Some x \<Rightarrow> x
                      | None \<Rightarrow> Finite 0))"
proof (cases "match_number (py_strip s)")
  case None
  then have "u = []"
    and "v = (case py_float (py_replace '','' [] (py_strip s)) of Some x \<Rightarrow> x | None \<Rightarrow> Finite 0)"
    using assms by (auto simp: parse_quantity_def split: option.splits)
  then show ?thesis using None by simp
next
  case (Some p)
  obtain g r where p: "p = (g, r)" by (cases p)
  have m: "match_number (py_strip s) = Some (g, r)" using Some p by simp
  have fl: "py_float (py_replace '','' [] g) = Some v" and un: "u = match_unit r"
    using assms by (auto simp: parse_quantity_def m split: option.splits)
  have nn: "nonneg v" using match_number_chars [OF m] fl by (rule py_float_plain)
  have "u \<in> set ([] # unit_words)" unfolding un by (rule match_unit_words)
  then have us: "u \<in> {[], ''feet'', ''ft'', ''foot'', ''ea'', ''each'', ''lot'', ''box''}"
    by (simp add: unit_words_def)
  have uc: "(u \<noteq> [] \<longrightarrow> prefix u (py_lower (dropWhile is_space r)))
      \<and> (u = [] \<longrightarrow> (\<forall>w\<in>set unit_words. \<not> prefix w (py_lower (dropWhile is_space r))))"
    unfolding un using match_unit_cases [of r] by blast
  show ?thesis using m fl nn us uc by simp
qed

subsection \<open>Facts about the signals\<close>

lemma keyword_bonus_fst:
  "fst (keyword_bonus kws c t) = fst t + 15 * int (length (filter (\<lambda>kw. py_in kw c) kws))"
  unfolding keyword_bonus_def
  by (induction kws arbitrary: t) (simp_all add: keyword_step_def)

lemma size_bonus_fst:
  "fst (size_bonus qs e il t) = fst t + fst (size_bonus qs e il (0, []))"
  by (simp add: size_bonus_def)

lemma penalty_fold_fst:
  "fst (foldl (penalty_step qc sec) t cts)
     = fst t - 25 * int (length (filter (\<lambda>ct. ct \<noteq> qc \<and> ct \<in> set (py_split sec)) cts))"
  by (induction cts arbitrary: t) (simp_all add: penalty_step_def)

lemma query_conduit_emt:
  assumes "''emt'' \<in> set (py_split qn)"
  shows "query_conduit qn = Some ''emt''"
  using assms by (simp add: query_conduit_def conduit_types_def)

lemma conduit_penalty_emt:
  assumes "''emt'' \<in> set (py_split qn)"
  shows "fst (conduit_penalty qn sec t)
     = fst t - 25 * int (length (filter (\<lambda>ct. ct \<in> set (py_split sec)) [''rigid'', ''pvc'', ''imc'', ''ent'', ''mc'']))"
proof -
  have f: "filter (\<lambda>ct. ct \<noteq> ''emt'' \<and> ct \<in> set (py_split sec)) conduit_types
             = filter (\<lambda>ct. ct \<in> set (py_split sec)) [''rigid'', ''pvc'', ''imc'', ''ent'', ''mc'']"
    by (simp add: conduit_types_def)
  have "fst (conduit_penalty qn sec t) = fst (foldl (penalty_step ''emt'' sec) t conduit_types)"
    by (simp only: conduit_penalty_def query_conduit_emt [OF assms] option.case)
  then show ?thesis by (simp only: penalty_fold_fst f)
qed

lemma signal_score_emt:
  assumes "''emt'' \<in> set (py_split (normalize_description q))"
  shows "signal_score q e = unpenalised_score q e
     - 25 * int (length (filter (\<lambda>ct. ct \<in> set (py_split (py_lower (Section e)))) [''rigid'', ''pvc'', ''imc'', ''ent'', ''mc'']))"
proof -
  let ?qn = "normalize_description q"
  let ?a = "alias_bonus ?qn (combined_text e) (0, [])"
  let ?p = "conduit_penalty ?qn (py_lower (Section e)) ?a"
  let ?k = "15 * int (length (filter (\<lambda>kw. py_in kw (combined_text e)) (extract_keywords ?qn)))"
  let ?s = "fst (size_bonus (extract_size ?qn) e (item_lower e) (0, []))"
  have "signal_score q e = fst ?p + ?s + ?k"
    unfolding signal_score_def signals_def keyword_bonus_fst
    using size_bonus_fst [of "extract_size ?qn" e "item_lower e" ?p] by simp
  moreover have "unpenalised_score q e = fst ?a + ?s + ?k"
    unfolding unpenalised_score_def keyword_bonus_fst
    using size_bonus_fst [of "extract_size ?qn" e "item_lower e" ?a] by simp
  ultimately show ?thesis using conduit_penalty_emt [OF assms, of "py_lower (Section e)" ?a] by simp
qed

lemma raw_score_signal:
  "raw_score fz q e = of_int (signal_score q e)
     + of_int (fz (normalize_description q) (combined_text e)) * (3 / 10)"
  by (simp add: raw_score_def score_entry_def signal_score_def Let_def)

lemma best_match_is_top:
  assumes "best_match fz m q = (Some e, c, r)"
  shows "e \<in> set (entries m) \<and> qualifies fz q e
         \<and> (\<forall>e'\<in>set (entries m). qualifies fz q e' \<longrightarrow> raw_score fz q e' \<le> raw_score fz q e)"
proof -
  have ex: "\<exists>e\<in>set (entries m). qualifies fz q e"
    using assms best_match_none [of m fz q] by auto
  then have ne: "candidates fz (entries m) q \<noteq> []"
    unfolding candidates_filter by (simp add: filter_empty_conv)
  from best_match_head [OF ne] obtain x where
    xin: "x \<in> set (candidates fz (entries m) q)" and
    le: "\<forall>y\<in>set (candidates fz (entries m) q). fst (snd y) \<le> fst (snd x)" and
    bm: "best_match fz m q = (Some (fst x), min 100 (fst (snd x)), snd (snd x))"
    by blast
  from xin obtain e0 where e0: "e0 \<in> set (entries m)" "qualifies fz q e0"
    "x = (e0, py_round1 (raw_score fz q e0), reason_text fz q e0)"
    unfolding in_candidates by blast
  have ee: "e = e0" using assms bm e0(3) by simp
  have "raw_score fz q e' \<le> raw_score fz q e" if "e' \<in> set (entries m)" "qualifies fz q e'" for e'
  proof -
    have "(e', py_round1 (raw_score fz q e'), reason_text fz q e') \<in> set (candidates fz (entries m) q)"
      unfolding in_candidates using that by blast
    then have "fst (snd (e', py_round1 (raw_score fz q e'), reason_text fz q e')) \<le> fst (snd x)"
      using le by blast
    then have "py_round1 (raw_score fz q e') \<le> py_round1 (raw_score fz q e0)"
      by (simp add: e0(3))
    then show ?thesis
      using qualifies_round(1) [OF that(2)] qualifies_round(1) [OF e0(2)] ee by simp
  qed
  then show ?thesis using e0 ee by blast
qed

text \<open>
  C7, as amended. For every reference table and every query with \<open>emt\<close> as a whole
  word: the raw score of an entry is its score without the penalty, less \<open>25\<close> for each
  other conduit-type word of its section, plus three tenths of the similarity; and the
  entry \<open>best_match\<close> returns qualifies and no qualifying entry of the table has a
  higher raw score. The penalty lowers the rank of an entry of another conduit type; it
  does not exclude the entry.
\<close>

theorem conduit_penalty_ranking:
  assumes "''emt'' \<in> set (py_split (normalize_description q))"
  shows "raw_score fz q e
           = of_int (unpenalised_score q e)
             - 25 * of_int (int (length (filter (\<lambda>ct. ct \<in> set (py_split (py_lower (Section e))))
                                         [''rigid'', ''pvc'', ''imc'', ''ent'', ''mc''])))
             + of_int (fz (normalize_description q) (combined_text e)) * (3 / 10)
         \<and> (best_match fz m q = (Some e, c, r) \<longrightarrow>
               e \<in> set (entries m) \<and> qualifies fz q e
               \<and> (\<forall>e'\<in>set (entries m). qualifies fz q e' \<longrightarrow> raw_score fz q e' \<le> raw_score fz q e))"
proof (intro conjI impI)
  show "raw_score fz q e
           = of_int (unpenalised_score q e)
             - 25 * of_int (int (length (filter (\<lambda>ct. ct \<in> set (py_split (py_lower (Section e))))
                                         [''rigid'', ''pvc'', ''imc'', ''ent'', ''mc''])))
             + of_int (fz (normalize_description q) (combined_text e)) * (3 / 10)"
    unfolding raw_score_signal signal_score_emt [OF assms] by simp
  show "e \<in> set (entries m)" "qualifies fz q e"
    "\<forall>e'\<in>set (entries m). qualifies fz q e' \<longrightarrow> raw_score fz q e' \<le> raw_score fz q e"
    if "best_match fz m q = (Some e, c, r)"
    using best_match_is_top [OF that] by blast+
qed

subsection \<open>The matcher on sample rows\<close>

text \<open>
  The similarity is taken constant in these evaluations: every row of the sample table
  qualifies for the query whatever values from \<open>0\<close> to \<open>100\<close> it takes.
\<close>

lemma sample_search:
  "search (\<lambda>a b. 100) \<lparr>entries = [emt_elbow_1_2, emt_3_4, emt_elbow_1]\<rparr> ''3/4 emt'' 5
     = [(emt_3_4, 130, ''type_match:emt, size_match:3/4, keyword:3/4, keyword:emt, fuzzy:100''),
        (emt_elbow_1_2, 85, ''type_match:emt, keyword:emt, fuzzy:100''),
        (emt_elbow_1, 85, ''type_match:emt, keyword:emt, fuzzy:100'')]"
  by code_simp

lemma sample_search_negative:
  "search (\<lambda>a b. 100) \<lparr>entries = [emt_elbow_1_2, emt_3_4, emt_elbow_1]\<rparr> ''3/4 emt'' (- 1)
     = [(emt_3_4, 130, ''type_match:emt, size_match:3/4, keyword:3/4, keyword:emt, fuzzy:100''),
        (emt_elbow_1_2, 85, ''type_match:emt, keyword:emt, fuzzy:100'')]"
  by code_simp

text \<open>
  C3 as stated fails for a negative \<open>top_n\<close>, which \<^verbatim>\<open>results[:top_n]\<close> reads from
  the end of the list: with three candidates and \<open>top_n = -1\<close> the search returns two
  results.
\<close>

theorem search_negative_top_n:
  "length (search (\<lambda>a b. 100) \<lparr>entries = [emt_elbow_1_2, emt_3_4, emt_elbow_1]\<rparr> ''3/4 emt'' (- 1)) = 2
   \<and> \<not> int (length (search (\<lambda>a b. 100) \<lparr>entries = [emt_elbow_1_2, emt_3_4, emt_elbow_1]\<rparr> ''3/4 emt'' (- 1))) \<le> - 1"
  by (simp add: sample_search_negative)

theorem search_sorted_stable_witness:
  "(0::int) \<le> 5
   \<and> search (\<lambda>a b. 100) \<lparr>entries = [emt_elbow_1_2, emt_3_4, emt_elbow_1]\<rparr> ''3/4 emt'' 5
     = [(emt_3_4, 130, ''type_match:emt, size_match:3/4, keyword:3/4, keyword:emt, fuzzy:100''),
        (emt_elbow_1_2, 85, ''type_match:emt, keyword:emt, fuzzy:100''),
        (emt_elbow_1, 85, ''type_match:emt, keyword:emt, fuzzy:100'')]
   \<and> length (search (\<lambda>a b. 100) \<lparr>entries = [emt_elbow_1_2, emt_3_4, emt_elbow_1]\<rparr> ''3/4 emt'' 5) \<le> nat 5
   \<and> entries \<lparr>entries = [emt_elbow_1_2, emt_3_4, emt_elbow_1]\<rparr> = entries \<lparr>entries = [emt_elbow_1_2, emt_3_4, emt_elbow_1]\<rparr>
   \<and> sorted_wrt (\<lambda>a b. fst (snd b) \<le> fst (snd a))
        (search (\<lambda>a b. 100) \<lparr>entries = [emt_elbow_1_2, emt_3_4, emt_elbow_1]\<rparr> ''3/4 emt'' 5)"
  using search_sorted_stable [of 5 "\<lambda>a b. 100" "\<lparr>entries = [emt_elbow_1_2, emt_3_4, emt_elbow_1]\<rparr>" "''3/4 emt''"
      "\<lparr>entries = [emt_elbow_1_2, emt_3_4, emt_elbow_1]\<rparr>"] sample_search
  by simp

theorem best_match_confidence_gap_witness:
  "(emt_elbow_1_2, 85, ''type_match:emt, keyword:emt, fuzzy:100'')
     \<in> set (search (\<lambda>a b. 100) \<lparr>entries = [emt_elbow_1_2, emt_3_4, emt_elbow_1]\<rparr> ''3/4 emt'' 5)
   \<and> 20 < raw_score (\<lambda>a b. 100) ''3/4 emt'' emt_elbow_1_2
   \<and> 85 = py_round1 (raw_score (\<lambda>a b. 100) ''3/4 emt'' emt_elbow_1_2)"
proof -
  have "(emt_elbow_1_2, 85, ''type_match:emt, keyword:emt, fuzzy:100'')
     \<in> set (search (\<lambda>a b. 100) \<lparr>entries = [emt_elbow_1_2, emt_3_4, emt_elbow_1]\<rparr> ''3/4 emt'' 5)"
    by (simp add: sample_search)
  then show ?thesis
    using best_match_confidence_gap [of "\<lambda>a b. 100" "\<lparr>entries = [emt_elbow_1_2, emt_3_4, emt_elbow_1]\<rparr>" "''3/4 emt''" 5]
    by fastforce
qed

subsection \<open>The quantity parser on sample texts\<close>

text \<open>
  C4. The claim is that \<open>parse_quantity\<close> returns a pair for every text. The text
  \<open>,\<close> matches the leading pattern with a first group that holds no digit, and the
  conversion of the group, which is outside the \<^verbatim>\<open>try\<close>, raises \<^verbatim>\<open>ValueError\<close>.
\<close>

theorem parse_quantity_raises: "parse_quantity '','' = Inl ValueError"
  by code_simp

text \<open>
  C9 as stated fails when the leading pattern does not match: the text \<open>-5\<close> is read
  by \<^verbatim>\<open>float\<close> as a whole and the value is negative.
\<close>

theorem parse_quantity_negative:
  "parse_quantity ''-5'' = Inr (Finite (- 5), []) \<and> \<not> nonneg (Finite (- 5))"
proof -
  have "parse_quantity ''-5'' = Inr (Finite (- 5), [])" by code_simp
  then show ?thesis by (simp add: nonneg_def)
qed

lemma parse_250_feet: "parse_quantity ''250 feet'' = Inr (Finite 250, ''feet'')"
  by code_simp

lemma match_250_feet: "match_number (py_strip ''250 feet'') = Some (''250'', '' feet'')"
  by code_simp

lemma match_minus_5: "match_number (py_strip ''-5'') = None"
  by code_simp

lemma parse_40: "parse_quantity ''40'' = Inr (Finite 40, [])"
  by code_simp

lemma match_40: "match_number (py_strip ''40'') = Some (''40'', [])"
  by code_simp

theorem parse_quantity_well_formed_witness:
  "parse_quantity ''250 feet'' = Inr (Finite 250, ''feet'')
   \<and> match_number (py_strip ''250 feet'') = Some (''250'', '' feet'')
   \<and> py_float (py_replace '','' [] ''250'') = Some (Finite 250)
   \<and> nonneg (Finite 250)
   \<and> ''feet'' \<noteq> []
   \<and> prefix ''feet'' (py_lower (dropWhile is_space '' feet''))
   \<and> parse_quantity ''40'' = Inr (Finite 40, [])
   \<and> match_number (py_strip ''40'') = Some (''40'', [])
   \<and> \<not> (\<exists>w\<in>set unit_words. prefix w (py_lower (dropWhile is_space [])))
   \<and> parse_quantity ''-5'' = Inr (Finite (- 5), [])
   \<and> match_number (py_strip ''-5'') = None
   \<and> Finite (- 5) = (case py_float (py_replace '','' [] (py_strip ''-5'')) of
                        Some x \<Rightarrow> x
                      | None \<Rightarrow> Finite 0)"
proof -
  have n: "parse_quantity ''-5'' = Inr (Finite (- 5), [])" by code_simp
  have f: "''feet'' \<noteq> []" by simp
  show ?thesis
    using parse_quantity_well_formed [OF parse_250_feet] parse_quantity_well_formed [OF n]
      parse_quantity_well_formed [OF parse_40]
      parse_250_feet match_250_feet match_minus_5 parse_40 match_40 n f
    by blast
qed

subsection \<open>The normalizer on decimal sizes\<close>

text \<open>
  C8. The claim is that a decimal size standing alone is rewritten to its fraction and
  that no decimal size is rewritten inside a longer token. The word boundary in front of
  a point needs a word character before the point: \<open>.75\<close> alone is left as it is,
  \<open>1.5\<close> is rewritten by the alias \<open>.5\<close> to \<open>11/2\<close>, and the \<open>.75\<close> inside
  \<open>x.75\<close> is rewritten.
\<close>

theorem normalize_description_decimals:
  "normalize_description ''.75'' = ''.75''
   \<and> normalize_description ''1.5'' = ''11/2''
   \<and> normalize_description ''x.75'' = ''x3/4''"
proof (intro conjI)
  show "normalize_description ''.75'' = ''.75''" by code_simp
  show "normalize_description ''1.5'' = ''11/2''" by code_simp
  show "normalize_description ''x.75'' = ''x3/4''" by code_simp
qed

subsection \<open>Keywords\<close>

lemma count_list_filter:
  "count_list (filter P xs) w = (if P w then count_list xs w else 0)"
  by (induction xs) auto

lemma signal_score_keywords:
  "signal_score q e = unkeyworded_score q e
     + 15 * int (length (filter (\<lambda>kw. py_in kw (combined_text e))
                          (extract_keywords (normalize_description q))))"
  by (simp add: signal_score_def signals_def unkeyworded_score_def keyword_bonus_fst)

lemma raw_score_keywords:
  "raw_score fz q e
     = of_int (unkeyworded_score q e)
       + 15 * of_int (int (length (filter (\<lambda>kw. py_in kw (combined_text e))
                                     (extract_keywords (normalize_description q)))))
       + of_int (fz (normalize_description q) (combined_text e)) * (3 / 10)"
  unfolding raw_score_signal signal_score_keywords by simp

text \<open>
  C6, as amended. Keyword extraction returns a list in the order of the query that
  keeps duplicates: the words of the text that are neither stop words nor shorter than
  two characters, each as often as it occurs. During scoring the keyword bonus is \<open>15\<close>
  for every element of that list, repeated or not, that occurs in the combined text: the
  raw score of an entry, and the score \<open>search\<close> reports for it, is the score without
  the keyword bonus plus \<open>15\<close> times the number of such elements plus three tenths of
  the similarity.
\<close>

theorem keyword_bonus_counts:
  "extract_keywords d = filter (\<lambda>w. w \<notin> set stop_words \<and> 1 < length w) (py_split d)
   \<and> count_list (extract_keywords d) w
       = (if w \<in> set stop_words \<or> length w \<le> 1 then 0 else count_list (py_split d) w)
   \<and> raw_score fz q e
       = of_int (unkeyworded_score q e)
         + 15 * of_int (int (length (filter (\<lambda>kw. py_in kw (combined_text e))
                                       (extract_keywords (normalize_description q)))))
         + of_int (fz (normalize_description q) (combined_text e)) * (3 / 10)
   \<and> (\<forall>r\<in>set (search fz m q n).
         fst (snd r)
           = of_int (unkeyworded_score q (fst r))
             + 15 * of_int (int (length (filter (\<lambda>kw. py_in kw (combined_text (fst r)))
                                           (extract_keywords (normalize_description q)))))
             + of_int (fz (normalize_description q) (combined_text (fst r))) * (3 / 10))"
proof (intro conjI ballI)
  show "extract_keywords d = filter (\<lambda>w. w \<notin> set stop_words \<and> 1 < length w) (py_split d)"
    by (simp add: extract_keywords_def)
  show "count_list (extract_keywords d) w
       = (if w \<in> set stop_words \<or> length w \<le> 1 then 0 else count_list (py_split d) w)"
    by (auto simp: extract_keywords_def count_list_filter)
  show "raw_score fz q e
       = of_int (unkeyworded_score q e)
         + 15 * of_int (int (length (filter (\<lambda>kw. py_in kw (combined_text e))
                                       (extract_keywords (normalize_description q)))))
         + of_int (fz (normalize_description q) (combined_text e)) * (3 / 10)"
    by (rule raw_score_keywords)
next
  fix r assume "r \<in> set (search fz m q n)"
  then have "qualifies fz q (fst r)" "fst (snd r) = py_round1 (raw_score fz q (fst r))"
    using search_member by blast+
  then have "fst (snd r) = raw_score fz q (fst r)"
    using qualifies_round(1) by simp
  then show "fst (snd r)
           = of_int (unkeyworded_score q (fst r))
             + 15 * of_int (int (length (filter (\<lambda>kw. py_in kw (combined_text (fst r)))
                                           (extract_keywords (normalize_description q)))))
             + of_int (fz (normalize_description q) (combined_text (fst r))) * (3 / 10)"
    by (simp only: raw_score_keywords)
qed

lemma search_emt_emt:
  "search (\<lambda>a b. 100) \<lparr>entries = [emt_3_4]\<rparr> ''emt emt'' 5
     = [(emt_3_4, 100, ''type_match:emt, keyword:emt, keyword:emt, fuzzy:100'')]"
  by code_simp

lemma keyword_count_emt_emt:
  "unkeyworded_score ''emt emt'' emt_3_4 = 40"
  "length (filter (\<lambda>kw. py_in kw (combined_text emt_3_4))
             (extract_keywords (normalize_description ''emt emt''))) = 2"
  by code_simp+

theorem keyword_bonus_counts_witness:
  "(emt_3_4, 100, ''type_match:emt, keyword:emt, keyword:emt, fuzzy:100'')
     \<in> set (search (\<lambda>a b. 100) \<lparr>entries = [emt_3_4]\<rparr> ''emt emt'' 5)
   \<and> (100::real) = of_int 40 + 15 * of_int (int 2) + of_int 100 * (3 / 10)
   \<and> unkeyworded_score ''emt emt'' emt_3_4 = 40
   \<and> length (filter (\<lambda>kw. py_in kw (combined_text emt_3_4))
               (extract_keywords (normalize_description ''emt emt''))) = 2"
proof -
  have "(emt_3_4, 100, ''type_match:emt, keyword:emt, keyword:emt, fuzzy:100'')
     \<in> set (search (\<lambda>a b. 100) \<lparr>entries = [emt_3_4]\<rparr> ''emt emt'' 5)"
    by (simp add: search_emt_emt)
  then show ?thesis
    using keyword_bonus_counts [of "''emt emt''" "''emt''" "\<lambda>a b. 100" "''emt emt''" emt_3_4
        "\<lparr>entries = [emt_3_4]\<rparr>" 5] keyword_count_emt_emt
    by simp
qed

lemma keywords_emt_emt: "extract_keywords (normalize_description ''emt emt'') = [''emt'', ''emt'']"
  by code_simp

text \<open>
  C6 as stated fails: the keywords of \<open>emt emt\<close> are not duplicate-free, and the
  repeated word earns the bonus twice (\<open>70\<close> against \<open>55\<close> for \<open>emt\<close>).
\<close>

theorem keyword_bonus_twice:
  "extract_keywords (normalize_description ''emt emt'') = [''emt'', ''emt'']
   \<and> \<not> distinct (extract_keywords (normalize_description ''emt emt''))
   \<and> signal_score ''emt'' emt_3_4 = 55
   \<and> signal_score ''emt emt'' emt_3_4 = 70"
proof (intro conjI)
  show "extract_keywords (normalize_description ''emt emt'') = [''emt'', ''emt'']"
    by (rule keywords_emt_emt)
  show "\<not> distinct (extract_keywords (normalize_description ''emt emt''))"
    by (simp add: keywords_emt_emt)
  show "signal_score ''emt'' emt_3_4 = 55" by code_simp
  show "signal_score ''emt emt'' emt_3_4 = 70" by code_simp
qed

subsection \<open>Construction of the matcher\<close>

text \<open>
  C5, as amended. Construction fails exactly when the table file cannot be opened or
  decoded, with the exception of the load; otherwise it succeeds with the rows of the
  file. Over an empty table it succeeds, and every query then gets the no-match result.
\<close>

theorem LaborMatcher_init_loads:
  "(files p = Inl err \<longrightarrow> LaborMatcher_init files p = Inl err)
   \<and> (files p = Inr rows \<longrightarrow> LaborMatcher_init files p = Inr \<lparr>entries = rows\<rparr>)
   \<and> (files p = Inr [] \<longrightarrow>
        LaborMatcher_init files p = Inr \<lparr>entries = []\<rparr>
        \<and> best_match fz \<lparr>entries = []\<rparr> q = (None, 0, ''No match found''))"
  by (simp add: LaborMatcher_init_def load_db_def best_match_none)

text \<open>C5 as stated fails: a file without rows gives a matcher.\<close>

theorem LaborMatcher_init_empty_table:
  "LaborMatcher_init (\<lambda>p. Inr []) ''data/labor_units_db.csv'' = Inr \<lparr>entries = []\<rparr>
   \<and> (\<forall>fz q. best_match fz \<lparr>entries = []\<rparr> q = (None, 0, ''No match found''))"
  by (simp add: LaborMatcher_init_def load_db_def best_match_none)

theorem LaborMatcher_init_loads_witness:
  "(\<lambda>p. if p = ''missing.csv'' then Inl OSError else Inr []) ''missing.csv'' = Inl OSError
   \<and> LaborMatcher_init (\<lambda>p. if p = ''missing.csv'' then Inl OSError else Inr []) ''missing.csv''
       = Inl OSError
   \<and> (\<lambda>p. if p = ''missing.csv'' then Inl OSError else Inr []) ''empty.csv'' = Inr []
   \<and> LaborMatcher_init (\<lambda>p. if p = ''missing.csv'' then Inl OSError else Inr []) ''empty.csv''
       = Inr \<lparr>entries = []\<rparr>
   \<and> best_match (\<lambda>a b. 0) \<lparr>entries = []\<rparr> ''3/4 emt'' = (None, 0, ''No match found'')"
  using LaborMatcher_init_loads [of "\<lambda>p. if p = ''missing.csv'' then Inl OSError else Inr []" "''missing.csv''" OSError "[]" "\<lambda>a b. 0" "''3/4 emt''"]
    LaborMatcher_init_loads [of "\<lambda>p. if p = ''missing.csv'' then Inl OSError else Inr []" "''empty.csv''" OSError "[]" "\<lambda>a b. 0" "''3/4 emt''"]
  by simp

subsection \<open>The conduit-type penalty on sample rows\<close>

lemma c7_scores:
  "signal_score ''3/4 emt conduit coupling'' emt_elbow_1_2 = 55"
  "signal_score ''3/4 emt conduit coupling'' pvc_coupling_3_4 = 90"
  by code_simp+

lemma c7_words:
  "''emt'' \<in> set (py_split (normalize_description ''3/4 emt conduit coupling''))"
  "py_in ''emt'' (py_lower (Section emt_elbow_1_2))"
  "''pvc'' \<in> set (py_split (py_lower (Section pvc_coupling_3_4)))"
  by code_simp+

lemma c7_best:
  assumes "\<forall>a b. 0 \<le> fz a b \<and> fz a b \<le> 100"
  shows "qualifies fz ''3/4 emt conduit coupling'' emt_elbow_1_2
         \<and> fst (best_match fz \<lparr>entries = [emt_elbow_1_2, pvc_coupling_3_4]\<rparr> ''3/4 emt conduit coupling'')
             = Some pvc_coupling_3_4"
proof -
  let ?q = "''3/4 emt conduit coupling''"
  let ?m = "\<lparr>entries = [emt_elbow_1_2, pvc_coupling_3_4]\<rparr>"
  define f1 where "f1 = fz (normalize_description ?q) (combined_text emt_elbow_1_2)"
  define f2 where "f2 = fz (normalize_description ?q) (combined_text pvc_coupling_3_4)"
  have r1: "raw_score fz ?q emt_elbow_1_2 = 55 + of_int f1 * (3 / 10)"
    by (simp add: raw_score_signal c7_scores f1_def)
  have r2: "raw_score fz ?q pvc_coupling_3_4 = 90 + of_int f2 * (3 / 10)"
    by (simp add: raw_score_signal c7_scores f2_def)
  have b1: "0 \<le> f1" "f1 \<le> 100" and b2: "0 \<le> f2" "f2 \<le> 100"
    using assms by (simp_all add: f1_def f2_def)
  have lo: "raw_score fz ?q emt_elbow_1_2 \<le> 85" and q1: "20 < raw_score fz ?q emt_elbow_1_2"
    using b1 by (simp_all add: r1)
  have hi: "90 \<le> raw_score fz ?q pvc_coupling_3_4"
    using b2 by (simp add: r2)
  have q2: "qualifies fz ?q pvc_coupling_3_4" using hi by (simp add: qualifies_def)
  have "\<exists>e\<in>set (entries ?m). qualifies fz ?q e" using q2 by simp
  then obtain e where e: "e \<in> set (entries ?m)"
    and bm: "best_match fz ?m ?q = (Some e, min 100 (top_score fz (entries ?m) ?q), reason_text fz ?q e)"
    using best_match_some [of ?m fz ?q] by blast
  have "raw_score fz ?q pvc_coupling_3_4 \<le> raw_score fz ?q e"
    using best_match_is_top [OF bm] q2 by simp
  then have "e \<noteq> emt_elbow_1_2" using lo hi by auto
  then have "e = pvc_coupling_3_4" using e by simp
  then show ?thesis using bm q1 by (simp add: qualifies_def)
qed

text \<open>
  C7 as stated fails. For the query \<open>3/4 emt conduit coupling\<close> the row of the section
  \<open>EMT FITTINGS\<close> qualifies, and the best match is the row of the section
  \<open>PVC CONDUIT\<close>, whatever values between \<open>0\<close> and \<open>100\<close> the similarity takes:
  its alias, size and keyword bonuses outweigh the penalty.
\<close>

theorem conduit_penalty_outweighed:
  "''emt'' \<in> set (py_split (normalize_description ''3/4 emt conduit coupling''))
   \<and> py_in ''emt'' (py_lower (Section emt_elbow_1_2))
   \<and> ''pvc'' \<in> set (py_split (py_lower (Section pvc_coupling_3_4)))
   \<and> \<not> (\<exists>fz. (\<forall>a b. 0 \<le> fz a b \<and> fz a b \<le> 100)
            \<and> \<not> (qualifies fz ''3/4 emt conduit coupling'' emt_elbow_1_2
                  \<and> fst (best_match fz \<lparr>entries = [emt_elbow_1_2, pvc_coupling_3_4]\<rparr>
                            ''3/4 emt conduit coupling'') = Some pvc_coupling_3_4))"
  using c7_words c7_best by blast

lemma c7_witness_eval:
  "''emt'' \<in> set (py_split (normalize_description ''3/4 emt''))"
  "best_match (\<lambda>a b. 100) \<lparr>entries = [emt_3_4, pvc_coupling_3_4]\<rparr> ''3/4 emt''
     = (Some emt_3_4, 100, ''type_match:emt, size_match:3/4, keyword:3/4, keyword:emt, fuzzy:100'')"
  by code_simp+

theorem conduit_penalty_ranking_witness:
  "''emt'' \<in> set (py_split (normalize_description ''3/4 emt''))
   \<and> best_match (\<lambda>a b. 100) \<lparr>entries = [emt_3_4, pvc_coupling_3_4]\<rparr> ''3/4 emt''
       = (Some emt_3_4, 100, ''type_match:emt, size_match:3/4, keyword:3/4, keyword:emt, fuzzy:100'')
   \<and> emt_3_4 \<in> set (entries \<lparr>entries = [emt_3_4, pvc_coupling_3_4]\<rparr>)
   \<and> qualifies (\<lambda>a b. 100) ''3/4 emt'' emt_3_4
   \<and> raw_score (\<lambda>a b. 100) ''3/4 emt'' emt_3_4 \<le> raw_score (\<lambda>a b. 100) ''3/4 emt'' emt_3_4"
  using conduit_penalty_ranking [OF c7_witness_eval(1), of "\<lambda>a b. 100" emt_3_4
      "\<lparr>entries = [emt_3_4, pvc_coupling_3_4]\<rparr>" 100
      "''type_match:emt, size_match:3/4, keyword:3/4, keyword:emt, fuzzy:100''"]
    c7_witness_eval
  by simp

end
